theory Spec2Isabelle
  imports Complex_Main "HOL-Library.Word" "HOL-Library.AList"
begin

section \<open>Wire types (src/types.ts)\<close>

datatype WebSocketProxyStatus = IDLE | CONNECTING | CONNECTED | RECONNECTING | DISCONNECTED | ERROR

text \<open>The string value of each member of the enum, as a template literal prints it.\<close>

fun status_name :: "WebSocketProxyStatus \<Rightarrow> string" where
  "status_name IDLE = ''IDLE''"
| "status_name CONNECTING = ''CONNECTING''"
| "status_name CONNECTED = ''CONNECTED''"
| "status_name RECONNECTING = ''RECONNECTING''"
| "status_name DISCONNECTED = ''DISCONNECTED''"
| "status_name ERROR = ''ERROR''"

text \<open>
  Identifiers, methods, URLs and log lines are \<open>string\<close>s. Text that the platform decodes
  from response bytes is a list of Unicode code points, since a decoded character does not
  fit an 8-bit \<open>char\<close>. A \<open>Record<string, string>\<close> is an association list in insertion order.
\<close>

type_synonym utext = "nat list"

type_synonym byte = "8 word"

type_synonym header_record = "(string \<times> string) list"

definition lit :: "string \<Rightarrow> utext" where
  "lit s = map of_char s"

text \<open>
  Messages sent from the client to the server: the union \<open>WSClientSentMessage\<close>. Each
  constructor lists the \<open>id\<close> first and then the fields of the payload; the \<open>type\<close> tag is
  the constructor. \<open>WSErrorMessage id code message http_response\<close>.
\<close>

datatype WSClientSentMessage =
    WSPingMessage
  | WSHttpResponseMessage string nat header_record utext
  | WSStreamStartMessage string nat header_record
  | WSStreamChunkMessage string utext
  | WSStreamEndMessage string
  | WSErrorMessage string string string "(nat \<times> header_record \<times> utext) option"

text \<open>The field \<open>httpMethod\<close> is the source's \<open>method\<close>, a reserved word here.\<close>

record WSHttpRequestPayload =
  httpMethod :: string
  url :: string
  headers :: header_record
  body :: "string option"

record WSHttpRequestMessage =
  msg_id :: string
  payload :: WSHttpRequestPayload

text \<open>
  What \<open>onSocketMessage\<close> sees of an inbound frame: \<open>JSON.parse\<close> throws
  (\<open>ParseFailure\<close>); it yields \<open>null\<close> or \<open>undefined\<close>-like values on which reading
  \<open>message.type\<close> throws (\<open>NullValue\<close>); or it yields a value whose \<open>type\<close> is the
  given string (\<open>None\<close> when the value has no \<open>type\<close>), together with the value read as a
  \<open>WSHttpRequestMessage\<close>, which is what the unchecked cast hands on (\<open>None\<close> when the
  value does not have that shape).
\<close>

datatype parsed_frame =
    ParseFailure
  | NullValue
  | Parsed "string option" "WSHttpRequestMessage option"

text \<open>
  A thrown value: an \<open>Error\<close> with its message, a \<open>Response\<close> with its status and what
  its \<open>text()\<close> resolves to (\<open>None\<close> when it rejects), or any other value with the result
  of \<open>String(error)\<close>.
\<close>

datatype thrown =
    ErrorObject string
  | ResponseObject nat "utext option"
  | OtherThrown string

fun thrown_message :: "thrown \<Rightarrow> string" where
  "thrown_message (ErrorObject m) = m"
| "thrown_message (ResponseObject st b) = ''[object Response]''"
| "thrown_message (OtherThrown m) = m"

section \<open>Printing numbers in template literals\<close>

definition digit_char :: "nat \<Rightarrow> char" where
  "digit_char d = ''0123456789'' ! d"

fun show_nat :: "nat \<Rightarrow> string" where
  "show_nat n = (if n < 10 then [digit_char n] else show_nat (n div 10) @ [digit_char (n mod 10)])"

declare show_nat.simps [simp del]

definition show_int :: "int \<Rightarrow> string" where
  "show_int i = (if i < 0 then CHR ''-'' # show_nat (nat (- i)) else show_nat (nat i))"

section \<open>The connection manager (src/unnamed/part_000)\<close>

text \<open>
  The module keeps its state in variables and acts on the platform (WebSocket objects,
  timers, the console, the status observer). Each function of the module is a function from
  the state before to the state after; the state holds the variables, what the functions
  read of the platform, and the trace of effects. The conventions:
  \<^item> the status observer and the console do not call back into the module and do not throw;
  \<^item> \<open>JSON.stringify\<close> of a \<open>WSClientSentMessage\<close> and \<open>socket.send\<close> on an open socket do
    not throw, so the \<open>catch\<close> in \<open>sendToServer\<close> has no branch here;
  \<^item> the delays are natural numbers of milliseconds, as they are in the source (1000 doubled
    up to 30000, all exact); the jitter \<open>Math.random() * 500\<close> and the sum
    \<open>delayWithJitter\<close> are real numbers, rounded as \<open>Math.round\<close> does (half up), where
    the source computes in IEEE doubles, so the armed delay and the seconds in the detail
    text can differ from the source's in the last place; no statement below reads them,
    except by evaluation at the jitter 0, where both agree;
  \<^item> an object logged to the console is left out of the logged line;
  \<^item> \<open>BASE_WEBSOCKET_URL\<close> is the default of the source, when the environment variable
    \<open>WEBSOCKET_PROXY_URL\<close> is not set.
\<close>

definition BASE_WEBSOCKET_URL :: string where
  "BASE_WEBSOCKET_URL = ''ws://127.0.0.1:5345/v1/ws''"

definition PING_INTERVAL_MS :: nat where
  "PING_INTERVAL_MS = 25 * 1000"

definition RECONNECT_INITIAL_DELAY_MS :: nat where
  "RECONNECT_INITIAL_DELAY_MS = 1000"

definition RECONNECT_MAX_DELAY_MS :: nat where
  "RECONNECT_MAX_DELAY_MS = 30 * 1000"

definition RECONNECT_JITTER_MS :: nat where
  "RECONNECT_JITTER_MS = 500"

definition WS_CONNECTING :: nat where "WS_CONNECTING = 0"

definition WS_OPEN :: nat where "WS_OPEN = 1"

definition WS_CLOSING :: nat where "WS_CLOSING = 2"

definition WS_CLOSED :: nat where "WS_CLOSED = 3"

text \<open>
  Everything the module does to the outside world, in the order it happens. References to
  WebSocket objects and timer handles are numbers.
\<close>

datatype effect =
    StatusCallback nat WebSocketProxyStatus "string option"
  | ConsoleLog string
  | ConsoleWarn string
  | ConsoleError string
  | SocketSend nat WSClientSentMessage
  | SocketCloseCall nat nat string
  | NewWebSocket string nat
  | SetTimeout nat real
  | ClearTimeout nat
  | SetInterval nat nat
  | ClearInterval nat
  | HandleHttpRequest "WSHttpRequestMessage option"

text \<open>
  The module's variables (the first eight fields, named as in the source), followed by the
  part of the platform they refer to: the \<open>readyState\<close> of every WebSocket object, the
  count of references and handles issued so far (a handle is never 0), the one-shot timers
  and the intervals that are armed, whether \<open>new WebSocket(url)\<close> throws for a URL, the
  values \<open>Math.random()\<close> returns in turn, and the trace of effects.
\<close>

record manager =
  socket :: "nat option"
  currentStatus :: WebSocketProxyStatus
  onStatusChangeCallback :: "nat option"
  pingIntervalId :: "nat option"
  reconnectTimeoutId :: "nat option"
  currentReconnectDelay :: nat
  explicitClose :: bool
  currentJwtToken :: "string option"
  readyState :: "nat \<Rightarrow> nat"
  issued :: nat
  pendingTimeouts :: "nat list"
  activeIntervals :: "nat list"
  webSocketThrows :: "string \<Rightarrow> thrown option"
  randomSource :: "nat \<Rightarrow> real"
  randomCalls :: nat
  effects :: "effect list"

text \<open>The module as loaded, on a platform that has issued no handle yet.\<close>

definition initial :: "(string \<Rightarrow> thrown option) \<Rightarrow> (nat \<Rightarrow> real) \<Rightarrow> manager" where
  "initial ctor rnd =
     \<lparr> socket = None, currentStatus = IDLE, onStatusChangeCallback = None,
       pingIntervalId = None, reconnectTimeoutId = None,
       currentReconnectDelay = RECONNECT_INITIAL_DELAY_MS, explicitClose = False,
       currentJwtToken = None,
       readyState = (\<lambda>_. WS_CLOSED), issued = 0, pendingTimeouts = [], activeIntervals = [],
       webSocketThrows = ctor, randomSource = rnd, randomCalls = 0, effects = [] \<rparr>"

subsection \<open>Truthiness\<close>

text \<open>A string or null is truthy when it is a non-empty string; a handle or null when it is
  a number other than 0.\<close>

fun truthy_string :: "string option \<Rightarrow> bool" where
  "truthy_string None = False"
| "truthy_string (Some s) = (s \<noteq> [])"

fun truthy_handle :: "nat option \<Rightarrow> bool" where
  "truthy_handle None = False"
| "truthy_handle (Some h) = (h \<noteq> 0)"

subsection \<open>Platform operations\<close>

definition emit :: "effect \<Rightarrow> manager \<Rightarrow> manager" where
  "emit e s = s\<lparr>effects := effects s @ [e]\<rparr>"

definition setTimeout :: "real \<Rightarrow> manager \<Rightarrow> nat \<times> manager" where
  "setTimeout delay s =
     (let h = Suc (issued s)
      in (h, emit (SetTimeout h delay) (s\<lparr>issued := h, pendingTimeouts := pendingTimeouts s @ [h]\<rparr>)))"

definition clearTimeout :: "nat \<Rightarrow> manager \<Rightarrow> manager" where
  "clearTimeout h s = emit (ClearTimeout h) (s\<lparr>pendingTimeouts := removeAll h (pendingTimeouts s)\<rparr>)"

definition setInterval :: "nat \<Rightarrow> manager \<Rightarrow> nat \<times> manager" where
  "setInterval period s =
     (let h = Suc (issued s)
      in (h, emit (SetInterval h period) (s\<lparr>issued := h, activeIntervals := activeIntervals s @ [h]\<rparr>)))"

definition clearInterval :: "nat \<Rightarrow> manager \<Rightarrow> manager" where
  "clearInterval h s = emit (ClearInterval h) (s\<lparr>activeIntervals := removeAll h (activeIntervals s)\<rparr>)"

definition Math_random :: "manager \<Rightarrow> real \<times> manager" where
  "Math_random s = (randomSource s (randomCalls s), s\<lparr>randomCalls := Suc (randomCalls s)\<rparr>)"

text \<open>\<open>new WebSocket(url)\<close> when it does not throw: a fresh object in state CONNECTING.\<close>

definition newWebSocket :: "string \<Rightarrow> manager \<Rightarrow> nat \<times> manager" where
  "newWebSocket wsUrl s =
     (let r = Suc (issued s)
      in (r, emit (NewWebSocket wsUrl r) (s\<lparr>issued := r, readyState := (readyState s)(r := WS_CONNECTING)\<rparr>)))"

text \<open>\<open>socket.close(code, reason)\<close> on an open or connecting socket starts the closing
  handshake; the close event comes later.\<close>

definition socket_close :: "nat \<Rightarrow> nat \<Rightarrow> string \<Rightarrow> manager \<Rightarrow> manager" where
  "socket_close r code reason s =
     emit (SocketCloseCall r code reason) (s\<lparr>readyState := (readyState s)(r := WS_CLOSING)\<rparr>)"

subsection \<open>The module's functions\<close>

definition updateStatus :: "WebSocketProxyStatus \<Rightarrow> string option \<Rightarrow> manager \<Rightarrow> manager" where
  "updateStatus newStatus details s =
     (if currentStatus s = newStatus \<and> \<not> truthy_string details then s
      else
        let s1 = s\<lparr>currentStatus := newStatus\<rparr>;
            s2 = (case onStatusChangeCallback s1 of
                    Some cb \<Rightarrow> emit (StatusCallback cb (currentStatus s1) details) s1
                  | None \<Rightarrow> s1)
        in emit (ConsoleLog (''WebSocket Proxy Status: '' @ status_name (currentStatus s2) @
                   (if truthy_string details then '' - '' @ the details else ''''))) s2)"

definition sendToServer :: "WSClientSentMessage \<Rightarrow> manager \<Rightarrow> manager" where
  "sendToServer message s =
     (case socket s of
        Some r \<Rightarrow>
          if readyState s r = WS_OPEN then emit (SocketSend r message) s
          else emit (ConsoleWarn ''WebSocket Proxy: Cannot send message, socket not open.'') s
      | None \<Rightarrow> emit (ConsoleWarn ''WebSocket Proxy: Cannot send message, socket not open.'') s)"

definition stopPing :: "manager \<Rightarrow> manager" where
  "stopPing s =
     (if truthy_handle (pingIntervalId s)
      then (clearInterval (the (pingIntervalId s)) s)\<lparr>pingIntervalId := None\<rparr>
      else s)"

definition startPing :: "manager \<Rightarrow> manager" where
  "startPing s =
     (let s1 = stopPing s;
          (h, s2) = setInterval PING_INTERVAL_MS s1
      in s2\<lparr>pingIntervalId := Some h\<rparr>)"

definition scheduleReconnect :: "manager \<Rightarrow> manager" where
  "scheduleReconnect s =
     (if explicitClose s \<or> \<not> truthy_string (currentJwtToken s)
      then updateStatus IDLE (Some ''Reconnection not attempted (explicit close or no token).'') s
      else
        let s1 = (if truthy_handle (reconnectTimeoutId s)
                  then clearTimeout (the (reconnectTimeoutId s)) s else s);
            (rnd, s2) = Math_random s1;
            delayWithJitter = real (currentReconnectDelay s2) + rnd * real RECONNECT_JITTER_MS;
            s3 = updateStatus RECONNECTING
                   (Some (''Attempting to reconnect in '' @
                          show_int (round (delayWithJitter / 1000)) @ ''s...'')) s2;
            (h, s4) = setTimeout delayWithJitter s3;
            s5 = s4\<lparr>reconnectTimeoutId := Some h\<rparr>
        in s5\<lparr>currentReconnectDelay :=
                  min (currentReconnectDelay s5 * 2) RECONNECT_MAX_DELAY_MS\<rparr>)"

definition connect :: "string \<Rightarrow> manager \<Rightarrow> manager" where
  "connect jwtToken s =
     (if jwtToken = [] then updateStatus ERROR (Some ''JWT Token is required to connect.'') s
      else
        let s1 = s\<lparr>currentJwtToken := Some jwtToken\<rparr>
        in if (case socket s1 of
                 Some r \<Rightarrow> readyState s1 r = WS_OPEN \<or> readyState s1 r = WS_CONNECTING
               | None \<Rightarrow> False)
           then emit (ConsoleLog ''WebSocket Proxy: Already connected or connecting.'') s1
           else
             let s2 = updateStatus CONNECTING None (s1\<lparr>explicitClose := False\<rparr>);
                 wsUrl = BASE_WEBSOCKET_URL @ ''?auth_token='' @ jwtToken;
                 s3 = emit (ConsoleLog (''WebSocket Proxy: Attempting to connect to '' @ wsUrl)) s2
             in (case webSocketThrows s3 wsUrl of
                   Some error \<Rightarrow>
                     scheduleReconnect
                       (updateStatus ERROR
                          (Some (''Failed to instantiate WebSocket: '' @ thrown_message error))
                          (emit (ConsoleError ''WebSocket Proxy: Instantiation error:'') s3))
                 | None \<Rightarrow>
                     let (r, s4) = newWebSocket wsUrl s3
                     in s4\<lparr>socket := Some r\<rparr>))"

text \<open>The callback that \<open>scheduleReconnect\<close> hands to \<open>setTimeout\<close>.\<close>

definition reconnectTimeoutCallback :: "manager \<Rightarrow> manager" where
  "reconnectTimeoutCallback s =
     (let s1 = s\<lparr>reconnectTimeoutId := None\<rparr>
      in if truthy_string (currentJwtToken s1) then connect (the (currentJwtToken s1)) s1
         else updateStatus IDLE (Some ''Reconnect aborted: JWT token became unavailable.'') s1)"

definition onSocketOpen :: "manager \<Rightarrow> manager" where
  "onSocketOpen s =
     (let s1 = updateStatus CONNECTED None s;
          s2 = s1\<lparr>currentReconnectDelay := RECONNECT_INITIAL_DELAY_MS\<rparr>;
          s3 = (if truthy_handle (reconnectTimeoutId s2)
                then (clearTimeout (the (reconnectTimeoutId s2)) s2)\<lparr>reconnectTimeoutId := None\<rparr>
                else s2)
      in startPing s3)"

text \<open>
  \<open>handleHttpRequest\<close> is an async function that touches no variable of the module: the
  handler starts it (the effect \<open>HandleHttpRequest\<close>), and what it sends arrives later,
  one \<open>sendToServer\<close> call at a time.
\<close>

definition onSocketMessage :: "parsed_frame \<Rightarrow> manager \<Rightarrow> manager" where
  "onSocketMessage frame s =
     (case frame of
        ParseFailure \<Rightarrow>
          emit (ConsoleError ''WebSocket Proxy: Error parsing message from server or handling it:'') s
      | NullValue \<Rightarrow>
          emit (ConsoleError ''WebSocket Proxy: Error parsing message from server or handling it:'') s
      | Parsed t request \<Rightarrow>
          (if t = Some ''http_request'' then emit (HandleHttpRequest request) s
           else if t = Some ''pong'' then s
           else emit (ConsoleWarn ''WebSocket Proxy: Received unknown message type'') s))"

definition onSocketError :: "manager \<Rightarrow> manager" where
  "onSocketError s = emit (ConsoleError ''WebSocket Proxy: Socket error:'') s"

definition onSocketClose :: "nat \<Rightarrow> string \<Rightarrow> manager \<Rightarrow> manager" where
  "onSocketClose code reason s =
     (let s1 = stopPing s
      in if truthy_handle (reconnectTimeoutId s1) then s1
         else
           let s2 = (if explicitClose s1
                     then (updateStatus IDLE
                             (Some (''Connection closed by client. Code: '' @ show_nat code)) s1)
                          \<lparr>explicitClose := False\<rparr>
                     else scheduleReconnect
                            (updateStatus DISCONNECTED
                               (Some (''Connection closed. Code: '' @ show_nat code @ '', Reason: '' @
                                      (if reason \<noteq> [] then reason else ''N/A''))) s1))
           in s2\<lparr>socket := None\<rparr>)"

definition disconnect :: "manager \<Rightarrow> manager" where
  "disconnect s =
     (let s1 = s\<lparr>explicitClose := True, currentJwtToken := None\<rparr>;
          s2 = (if truthy_handle (reconnectTimeoutId s1)
                then (clearTimeout (the (reconnectTimeoutId s1)) s1)\<lparr>reconnectTimeoutId := None\<rparr>
                else s1);
          s3 = stopPing s2;
          s4 = (case socket s3 of
                  Some r \<Rightarrow>
                    if readyState s3 r = WS_OPEN \<or> readyState s3 r = WS_CONNECTING
                    then socket_close r 1000 ''Client initiated disconnect'' s3
                    else onSocketClose 1000 ''Client initiated disconnect on non-open socket'' s3
                | None \<Rightarrow> updateStatus IDLE (Some ''Disconnected (no active socket).'') s3)
      in s4\<lparr>socket := None\<rparr>)"

definition setOnStatusChange :: "nat option \<Rightarrow> manager \<Rightarrow> manager" where
  "setOnStatusChange callback s =
     (let s1 = s\<lparr>onStatusChangeCallback := callback\<rparr>
      in case onStatusChangeCallback s1 of
           Some cb \<Rightarrow> emit (StatusCallback cb (currentStatus s1) None) s1
         | None \<Rightarrow> s1)"

section \<open>The request dispatcher (handleHttpRequest)\<close>

subsection \<open>The platform it calls\<close>

text \<open>
  A \<open>URL\<close> object, as far as the dispatcher looks at it: the path, the list of query
  parameters behind \<open>searchParams\<close>, and the rest of the URL (what stands before the path,
  and the fragment). \<open>searchParams.has\<close> and \<open>searchParams.delete\<close> work on the list: the
  latter removes every pair with the given name and keeps the others in order.
\<close>

record URL =
  origin :: string
  pathname :: string
  searchParams :: "(string \<times> string) list"
  hash :: string

definition searchParams_has :: "URL \<Rightarrow> string \<Rightarrow> bool" where
  "searchParams_has u name = (name \<in> set (map fst (searchParams u)))"

definition searchParams_delete :: "URL \<Rightarrow> string \<Rightarrow> URL" where
  "searchParams_delete u name = u\<lparr>searchParams := filter (\<lambda>p. fst p \<noteq> name) (searchParams u)\<rparr>"

definition endsWith :: "string \<Rightarrow> string \<Rightarrow> bool" where
  "endsWith s t = (length t \<le> length s \<and> drop (length s - length t) s = t)"

text \<open>
  The options handed to \<open>fetch\<close>, and what \<open>fetch\<close> gives back: it throws, or it resolves
  to a response with a status, its headers in iteration order, and a body. The body is
  either a readable stream, given by the result of the i-th call of \<open>reader.read()\<close>, or
  has no reader, in which case \<open>response.text()\<close> resolves to a text or rejects.
\<close>

record RequestInit =
  ri_method :: string
  ri_headers :: header_record
  ri_body :: "string option"

datatype read_result = ReadValue "byte list" | ReadDone | ReadThrows thrown

datatype response_body = StreamBody "nat \<Rightarrow> read_result" | TextBody "thrown + utext"

datatype fetch_result = FetchThrows thrown | FetchResponse nat header_record response_body

text \<open>
  A \<open>TextDecoder\<close>: the state of a new decoder, \<open>decode(value, {stream: true})\<close>, which
  returns the text decoded so far and the state that carries an unfinished character, and the
  final \<open>decode()\<close>, which flushes what is left.
\<close>

record 'd TextDecoder =
  fresh :: 'd
  decode_stream :: "'d \<Rightarrow> byte list \<Rightarrow> utext \<times> 'd"
  decode_end :: "'d \<Rightarrow> utext"

text \<open>
  The platform is a parameter of the dispatcher: \<open>new URL(url)\<close> (\<open>None\<close> when it throws),
  \<open>parsedUrl.toString()\<close>, \<open>fetch\<close>, and the decoder.
\<close>

record 'd platform =
  newURL :: "string \<Rightarrow> URL option"
  URL_toString :: "URL \<Rightarrow> string"
  fetch :: "string \<Rightarrow> RequestInit \<Rightarrow> fetch_result"
  newTextDecoder :: "'d TextDecoder"

subsection \<open>The dispatcher\<close>

text \<open>
  The object \<open>responseHeaders\<close> that \<open>response.headers.forEach\<close> fills with
  \<open>responseHeaders[key] = value\<close>: a later value replaces an earlier one of the same name,
  and an assignment to the name \<open>__proto__\<close> leaves a plain object without that property,
  since the value is a string. The list stands for the object's own properties; its order
  is the order of first assignment.
\<close>

definition responseHeaders :: "header_record \<Rightarrow> header_record" where
  "responseHeaders hs =
     foldl (\<lambda>acc (key, v). if key = ''__proto__'' then acc else AList.update key v acc) [] hs"

text \<open>
  The message built in the \<open>catch\<close> block: FETCH_ERROR with the message of the thrown
  value; HTTP_ERROR with the response when the thrown value is a \<open>Response\<close> with a status
  other than 0.
\<close>

definition errorMessage :: "string \<Rightarrow> thrown \<Rightarrow> WSClientSentMessage" where
  "errorMessage rid error =
     (case error of
        ResponseObject st b \<Rightarrow>
          if st \<noteq> 0
          then WSErrorMessage rid ''HTTP_ERROR'' (thrown_message error)
                 (Some (st, [], case b of Some t \<Rightarrow> t | None \<Rightarrow> lit ''Could not read error body''))
          else WSErrorMessage rid ''FETCH_ERROR'' (thrown_message error) None
      | _ \<Rightarrow> WSErrorMessage rid ''FETCH_ERROR'' (thrown_message error) None)"

text \<open>
  The loop \<open>while (true)\<close> over \<open>reader.read()\<close>: \<open>i\<close> counts the reads made, \<open>dec\<close> is the
  state of the decoder and \<open>out\<close> the messages handed to \<open>sendToServer\<close> so far. The loop
  ends when a read is done or throws; on a body that never ends it does not return, which is
  the value \<open>None\<close>.
\<close>

partial_function (option) streamLoop ::
  "'d TextDecoder \<Rightarrow> string \<Rightarrow> (nat \<Rightarrow> read_result) \<Rightarrow> nat \<Rightarrow> 'd \<Rightarrow> WSClientSentMessage list
   \<Rightarrow> (thrown option \<times> 'd \<times> WSClientSentMessage list) option" where
  "streamLoop D rid reads i dec out =
     (case reads i of
        ReadDone \<Rightarrow> Some (None, dec, out)
      | ReadThrows error \<Rightarrow> Some (Some error, dec, out)
      | ReadValue v \<Rightarrow>
          (case decode_stream D dec v of
             (chunkData, dec') \<Rightarrow>
               streamLoop D rid reads (Suc i) dec' (out @ [WSStreamChunkMessage rid chunkData])))"

text \<open>
  What one run of \<open>handleHttpRequest\<close> does: the URL and the options of its one \<open>fetch\<close>
  call, and the messages it hands to \<open>sendToServer\<close>, in order (\<open>None\<close> when the run never
  ends). Its console output is left out.
\<close>

record dispatch =
  fetch_url :: string
  fetch_options :: RequestInit
  sent :: "WSClientSentMessage list option"

definition handleHttpRequest :: "'d platform \<Rightarrow> WSHttpRequestMessage \<Rightarrow> dispatch" where
  "handleHttpRequest P request =
     (let rid = msg_id request;
          m = httpMethod (payload request);
          u0 = url (payload request);
          u = (if m = ''GET''
               then (case newURL P u0 of
                       None \<Rightarrow> u0
                     | Some parsedUrl \<Rightarrow>
                         if endsWith (pathname parsedUrl) ''/v1beta/models'' \<or>
                            endsWith (pathname parsedUrl) ''/v1beta/models/''
                         then (if searchParams_has parsedUrl ''key''
                               then URL_toString P (searchParams_delete parsedUrl ''key'')
                               else u0)
                         else u0)
               else u0);
          fetchOptions = \<lparr> ri_method = m, ri_headers = headers (payload request),
                           ri_body = (if m \<noteq> ''GET'' \<and> m \<noteq> ''HEAD''
                                      then body (payload request) else None) \<rparr>
      in \<lparr> fetch_url = u, fetch_options = fetchOptions,
           sent =
             (case fetch P u fetchOptions of
                FetchThrows error \<Rightarrow> Some [errorMessage rid error]
              | FetchResponse st hs b \<Rightarrow>
                  (case b of
                     StreamBody reads \<Rightarrow>
                       (case streamLoop (newTextDecoder P) rid reads 0 (fresh (newTextDecoder P))
                               [WSStreamStartMessage rid st (responseHeaders hs)] of
                          None \<Rightarrow> None
                        | Some (Some error, dec, out) \<Rightarrow> Some (out @ [errorMessage rid error])
                        | Some (None, dec, out) \<Rightarrow>
                            (let finalChunk = decode_end (newTextDecoder P) dec;
                                 out' = (if finalChunk \<noteq> []
                                         then out @ [WSStreamChunkMessage rid finalChunk]
                                         else out)
                             in Some (out' @ [WSStreamEndMessage rid])))
                   | TextBody (Inl error) \<Rightarrow> Some [errorMessage rid error]
                   | TextBody (Inr responseBodyText) \<Rightarrow>
                       Some [WSHttpResponseMessage rid st (responseHeaders hs) responseBodyText])) \<rparr>)"

text \<open>The messages of a run handed to \<open>sendToServer\<close> one after the other.\<close>

fun sendAll :: "WSClientSentMessage list \<Rightarrow> manager \<Rightarrow> manager" where
  "sendAll [] s = s"
| "sendAll (m # ms) s = sendAll ms (sendToServer m s)"

subsection \<open>Reading the messages of a run\<close>

fun is_terminal :: "WSClientSentMessage \<Rightarrow> bool" where
  "is_terminal (WSHttpResponseMessage rid st hs b) = True"
| "is_terminal (WSStreamEndMessage rid) = True"
| "is_terminal (WSErrorMessage rid code msg r) = True"
| "is_terminal m = False"

fun message_id :: "WSClientSentMessage \<Rightarrow> string option" where
  "message_id WSPingMessage = None"
| "message_id (WSHttpResponseMessage rid st hs b) = Some rid"
| "message_id (WSStreamStartMessage rid st hs) = Some rid"
| "message_id (WSStreamChunkMessage rid d) = Some rid"
| "message_id (WSStreamEndMessage rid) = Some rid"
| "message_id (WSErrorMessage rid code msg r) = Some rid"

fun chunk_data :: "WSClientSentMessage \<Rightarrow> utext" where
  "chunk_data (WSStreamChunkMessage rid d) = d"
| "chunk_data m = []"

fun is_value :: "read_result \<Rightarrow> bool" where
  "is_value (ReadValue v) = True"
| "is_value r = False"

text \<open>The body of a response ends: some read is done or throws.\<close>

fun body_ends :: "fetch_result \<Rightarrow> bool" where
  "body_ends (FetchResponse st hs (StreamBody reads)) = (\<exists>n. \<not> is_value (reads n))"
| "body_ends r = True"

text \<open>
  Decoding a whole byte sequence with a new decoder in one call, \<open>new
  TextDecoder().decode(bytes)\<close>, and decoding a list of chunks one by one with
  \<open>{stream: true}\<close>.
\<close>

definition decode_whole :: "'d TextDecoder \<Rightarrow> byte list \<Rightarrow> utext" where
  "decode_whole D bytes =
     (case decode_stream D (fresh D) bytes of (t, dec) \<Rightarrow> t @ decode_end D dec)"

fun decode_chunks :: "'d TextDecoder \<Rightarrow> 'd \<Rightarrow> byte list list \<Rightarrow> utext list \<times> 'd" where
  "decode_chunks D dec [] = ([], dec)"
| "decode_chunks D dec (c # cs) =
     (case decode_stream D dec c of
        (t, dec') \<Rightarrow> (case decode_chunks D dec' cs of (ts, dec'') \<Rightarrow> (t # ts, dec'')))"

text \<open>
  What a streaming decoder promises: decoding two pieces one after the other gives the text
  of decoding them joined, and an empty input changes nothing.
\<close>

definition streaming_decoder :: "'d TextDecoder \<Rightarrow> bool" where
  "streaming_decoder D =
     ((\<forall>dec. decode_stream D dec [] = ([], dec)) \<and>
      (\<forall>dec a b. decode_stream D dec (a @ b) =
         (case decode_stream D dec a of
            (x, dec1) \<Rightarrow> (case decode_stream D dec1 b of (y, dec2) \<Rightarrow> (x @ y, dec2)))))"

subsection \<open>A UTF-8 decoder and a URL class for the examples\<close>

text \<open>
  The UTF-8 decoder of the platform, after the Encoding Standard: the code point under
  construction, the bytes seen and needed, the bounds of the next continuation byte, and
  whether a byte order mark has been passed. An ill-formed sequence gives U+FFFD, and the
  byte that broke it is read again as a first byte.
\<close>

record utf8_decoder =
  codePoint :: nat
  bytesSeen :: nat
  bytesNeeded :: nat
  lowerBoundary :: nat
  upperBoundary :: nat
  bomSeen :: bool

definition utf8_fresh :: utf8_decoder where
  "utf8_fresh = \<lparr> codePoint = 0, bytesSeen = 0, bytesNeeded = 0, lowerBoundary = 0x80,
                   upperBoundary = 0xBF, bomSeen = False \<rparr>"

definition utf8_reset :: "utf8_decoder \<Rightarrow> utf8_decoder" where
  "utf8_reset d = d\<lparr>codePoint := 0, bytesSeen := 0, bytesNeeded := 0, lowerBoundary := 0x80,
                     upperBoundary := 0xBF\<rparr>"

definition utf8_lead :: "utf8_decoder \<Rightarrow> nat \<Rightarrow> nat list \<times> utf8_decoder" where
  "utf8_lead d b =
     (if b \<le> 0x7F then ([b], d)
      else if 0xC2 \<le> b \<and> b \<le> 0xDF then ([], d\<lparr>bytesNeeded := 1, codePoint := b mod 32\<rparr>)
      else if 0xE0 \<le> b \<and> b \<le> 0xEF
        then ([], d\<lparr>lowerBoundary := (if b = 0xE0 then 0xA0 else lowerBoundary d),
                     upperBoundary := (if b = 0xED then 0x9F else upperBoundary d),
                     bytesNeeded := 2, codePoint := b mod 16\<rparr>)
      else if 0xF0 \<le> b \<and> b \<le> 0xF4
        then ([], d\<lparr>lowerBoundary := (if b = 0xF0 then 0x90 else lowerBoundary d),
                     upperBoundary := (if b = 0xF4 then 0x8F else upperBoundary d),
                     bytesNeeded := 3, codePoint := b mod 8\<rparr>)
      else ([0xFFFD], d))"

definition utf8_byte :: "utf8_decoder \<Rightarrow> nat \<Rightarrow> nat list \<times> utf8_decoder" where
  "utf8_byte d b =
     (if bytesNeeded d = 0 then utf8_lead d b
      else if b < lowerBoundary d \<or> upperBoundary d < b
        then (case utf8_lead (utf8_reset d) b of (out, d') \<Rightarrow> (0xFFFD # out, d'))
      else
        let d1 = d\<lparr>lowerBoundary := 0x80, upperBoundary := 0xBF,
                   codePoint := codePoint d * 64 + b mod 64, bytesSeen := bytesSeen d + 1\<rparr>
        in if bytesSeen d1 \<noteq> bytesNeeded d1 then ([], d1) else ([codePoint d1], utf8_reset d1))"

fun strip_bom :: "bool \<Rightarrow> nat list \<Rightarrow> nat list \<times> bool" where
  "strip_bom True out = (out, True)"
| "strip_bom False [] = ([], False)"
| "strip_bom False (c # out) = (if c = 0xFEFF then (out, True) else (c # out, True))"

fun utf8_decode :: "utf8_decoder \<Rightarrow> byte list \<Rightarrow> utext \<times> utf8_decoder" where
  "utf8_decode d [] = ([], d)"
| "utf8_decode d (b # bs) =
     (case utf8_byte d (unat b) of
        (out, d1) \<Rightarrow>
          (case strip_bom (bomSeen d1) out of
             (out', seen) \<Rightarrow>
               (case utf8_decode (d1\<lparr>bomSeen := seen\<rparr>) bs of
                  (rest, d2) \<Rightarrow> (out' @ rest, d2))))"

definition utf8_end :: "utf8_decoder \<Rightarrow> utext" where
  "utf8_end d = (if bytesNeeded d \<noteq> 0 then fst (strip_bom (bomSeen d) [0xFFFD]) else [])"

definition utf8_TextDecoder :: "utf8_decoder TextDecoder" where
  "utf8_TextDecoder = \<lparr> fresh = utf8_fresh, decode_stream = utf8_decode, decode_end = utf8_end \<rparr>"

text \<open>
  A stand-in for the platform's URL class, good for absolute URLs that are written in
  their serialized form and need no escaping: \<open>scheme://host/path?query#fragment\<close>.
\<close>

fun split_first :: "char \<Rightarrow> string \<Rightarrow> string \<times> string option" where
  "split_first c [] = ([], None)"
| "split_first c (x # xs) =
     (if x = c then ([], Some xs)
      else (case split_first c xs of (a, r) \<Rightarrow> (x # a, r)))"

fun split_all :: "char \<Rightarrow> string \<Rightarrow> string list" where
  "split_all c [] = [[]]"
| "split_all c (x # xs) =
     (if x = c then [] # split_all c xs
      else (case split_all c xs of p # ps \<Rightarrow> (x # p) # ps | [] \<Rightarrow> [[x]]))"

definition parse_pair :: "string \<Rightarrow> string \<times> string" where
  "parse_pair kv = (case split_first CHR ''='' kv of (k, v) \<Rightarrow> (k, case v of None \<Rightarrow> [] | Some w \<Rightarrow> w))"

definition simple_newURL :: "string \<Rightarrow> URL option" where
  "simple_newURL s =
     (let scheme = takeWhile (\<lambda>c. c \<noteq> CHR '':'') s;
          rest = dropWhile (\<lambda>c. c \<noteq> CHR '':'') s
      in if scheme = [] \<or> take 3 rest \<noteq> ''://'' then None
         else
           (case split_first CHR ''#'' (drop 3 rest) of
              (beforeHash, fragment) \<Rightarrow>
                (case split_first CHR ''?'' beforeHash of
                   (beforeQuery, query) \<Rightarrow>
                     let host = takeWhile (\<lambda>c. c \<noteq> CHR ''/'') beforeQuery;
                         path = dropWhile (\<lambda>c. c \<noteq> CHR ''/'') beforeQuery
                     in if host = [] then None
                        else Some \<lparr> origin = scheme @ ''://'' @ host,
                                    pathname = (if path = [] then ''/'' else path),
                                    searchParams =
                                      (case query of
                                         None \<Rightarrow> []
                                       | Some q \<Rightarrow>
                                           map parse_pair (filter (\<lambda>p. p \<noteq> []) (split_all CHR ''&'' q))),
                                    hash = (case fragment of
                                              None \<Rightarrow> []
                                            | Some f \<Rightarrow> if f = [] then [] else CHR ''#'' # f) \<rparr>)))"

fun join_pairs :: "(string \<times> string) list \<Rightarrow> string" where
  "join_pairs [] = []"
| "join_pairs [(k, v)] = k @ CHR ''='' # v"
| "join_pairs ((k, v) # ps) = k @ CHR ''='' # v @ CHR ''&'' # join_pairs ps"

definition simple_toString :: "URL \<Rightarrow> string" where
  "simple_toString u =
     origin u @ pathname u @
     (if searchParams u = [] then [] else CHR ''?'' # join_pairs (searchParams u)) @ hash u"

text \<open>An example platform: the two stand-ins, and a \<open>fetch\<close> that is given.\<close>

definition example_platform :: "(string \<Rightarrow> RequestInit \<Rightarrow> fetch_result) \<Rightarrow> utf8_decoder platform" where
  "example_platform f =
     \<lparr> newURL = simple_newURL, URL_toString = simple_toString, fetch = f,
       newTextDecoder = utf8_TextDecoder \<rparr>"

text \<open>A body that delivers the given chunks and then is done.\<close>

definition reads_of :: "byte list list \<Rightarrow> nat \<Rightarrow> read_result" where
  "reads_of chunks i = (if i < length chunks then ReadValue (chunks ! i) else ReadDone)"

definition example_request :: "string \<Rightarrow> string \<Rightarrow> WSHttpRequestMessage" where
  "example_request m u =
     \<lparr> msg_id = ''X'', payload = \<lparr> httpMethod = m, url = u, headers = [], body = None \<rparr> \<rparr>"

text \<open>A \<open>fetch\<close> that answers every call with status 200, no headers and a streamed body
  of the given chunks.\<close>

definition example_stream :: "byte list list \<Rightarrow> string \<Rightarrow> RequestInit \<Rightarrow> fetch_result" where
  "example_stream chunks u opts = FetchResponse 200 [] (StreamBody (reads_of chunks))"

section \<open>Events\<close>

text \<open>
  What can happen to the module: a call of one of its exported functions, an event of a
  WebSocket object (every object that \<open>connect\<close> creates carries the four handlers, also
  after the variable \<open>socket\<close> has let go of it), a timer that fires, or a pending
  \<open>handleHttpRequest\<close> task that hands a message to \<open>sendToServer\<close>. The platform sets the
  \<open>readyState\<close> of an object before it delivers the open or the close event, and a one-shot
  timer fires only while it is armed. Events are not restricted further, so the runs below
  include every run of the real module.
\<close>

datatype event =
    CallConnect string
  | CallDisconnect
  | CallSetOnStatusChange "nat option"
  | OpenEvent nat
  | MessageEvent nat parsed_frame
  | ErrorEvent nat
  | CloseEvent nat nat string
  | TimeoutFires nat
  | IntervalFires nat
  | TaskSends WSClientSentMessage

fun step :: "event \<Rightarrow> manager \<Rightarrow> manager" where
  "step (CallConnect jwtToken) s = connect jwtToken s"
| "step CallDisconnect s = disconnect s"
| "step (CallSetOnStatusChange callback) s = setOnStatusChange callback s"
| "step (OpenEvent r) s = onSocketOpen (s\<lparr>readyState := (readyState s)(r := WS_OPEN)\<rparr>)"
| "step (MessageEvent r frame) s = onSocketMessage frame s"
| "step (ErrorEvent r) s = onSocketError s"
| "step (CloseEvent r code reason) s =
     onSocketClose code reason (s\<lparr>readyState := (readyState s)(r := WS_CLOSED)\<rparr>)"
| "step (TimeoutFires h) s =
     (if h \<in> set (pendingTimeouts s)
      then reconnectTimeoutCallback (s\<lparr>pendingTimeouts := removeAll h (pendingTimeouts s)\<rparr>)
      else s)"
| "step (IntervalFires h) s =
     (if h \<in> set (activeIntervals s) then sendToServer WSPingMessage s else s)"
| "step (TaskSends message) s = sendToServer message s"

fun run :: "event list \<Rightarrow> manager \<Rightarrow> manager" where
  "run [] s = s"
| "run (e # es) s = run es (step e s)"

fun is_connect_call :: "event \<Rightarrow> bool" where
  "is_connect_call (CallConnect t) = True"
| "is_connect_call e = False"

fun is_open_event :: "event \<Rightarrow> bool" where
  "is_open_event (OpenEvent r) = True"
| "is_open_event e = False"

subsection \<open>Example runs\<close>

text \<open>A platform on which \<open>new WebSocket\<close> never throws and \<open>Math.random()\<close> returns 0.\<close>

definition example_initial :: manager where
  "example_initial = initial (\<lambda>_. None) (\<lambda>_. 0)"

text \<open>\<open>connect("a")\<close>, and the socket opens.\<close>

definition example_connected :: manager where
  "example_connected = run [CallConnect ''a'', OpenEvent 1] example_initial"

text \<open>\<open>connect("a")\<close>, and the socket closes with code 1006 before it opens.\<close>

definition example_dropped :: manager where
  "example_dropped =
     run [CallConnect ''a'', CloseEvent 1 1006 []] (initial (\<lambda>_. None) (\<lambda>_. 0))"

text \<open>\<open>connect("a")\<close>, the socket opens, and \<open>disconnect()\<close> is called; the close event
  has not come yet.\<close>

definition example_disconnecting :: manager where
  "example_disconnecting = run [CallConnect ''a'', OpenEvent 1, CallDisconnect] example_initial"

text \<open>A platform on which \<open>new WebSocket\<close> always throws.\<close>

definition example_throwing :: manager where
  "example_throwing = initial (\<lambda>_. Some (ErrorObject ''bad url'')) (\<lambda>_. 0)"

section \<open>Predicates of the statements\<close>

text \<open>The reconnect delay lies between the initial and the maximum value.\<close>

definition delay_in_range :: "manager \<Rightarrow> bool" where
  "delay_in_range s =
     (RECONNECT_INITIAL_DELAY_MS \<le> currentReconnectDelay s \<and>
      currentReconnectDelay s \<le> RECONNECT_MAX_DELAY_MS)"

text \<open>The effects that start a connection attempt: arming a one-shot timer (the module arms
  none but the reconnect timer) and creating a WebSocket.\<close>

fun arms_reconnect :: "effect \<Rightarrow> bool" where
  "arms_reconnect (SetTimeout h d) = True"
| "arms_reconnect (NewWebSocket u r) = True"
| "arms_reconnect e = False"

text \<open>The trace of \<open>s'\<close> is the trace of \<open>s\<close> followed by effects none of which starts a
  connection attempt.\<close>

definition quiet_since :: "manager \<Rightarrow> manager \<Rightarrow> bool" where
  "quiet_since s s' =
     (take (length (effects s)) (effects s') = effects s \<and>
      list_all (\<lambda>e. \<not> arms_reconnect e) (drop (length (effects s)) (effects s')))"

text \<open>The only one-shot timer that can be armed is the one in \<open>reconnectTimeoutId\<close>, and
  that handle is truthy.\<close>

definition timers_tracked :: "manager \<Rightarrow> bool" where
  "timers_tracked s =
     (reconnectTimeoutId s \<noteq> Some 0 \<and>
      set (pendingTimeouts s) \<subseteq> set_option (reconnectTimeoutId s))"

text \<open>No token is stored and no reconnect timer is armed.\<close>

definition no_credentials :: "manager \<Rightarrow> bool" where
  "no_credentials s =
     (currentJwtToken s = None \<and> reconnectTimeoutId s = None \<and> pendingTimeouts s = [])"

text \<open>The second half of \<open>handleHttpRequest\<close>, from the result of \<open>fetch\<close> on.\<close>

definition respond :: "'d platform \<Rightarrow> string \<Rightarrow> fetch_result \<Rightarrow> WSClientSentMessage list option" where
  "respond P rid r =
     (case r of
        FetchThrows error \<Rightarrow> Some [errorMessage rid error]
      | FetchResponse st hs b \<Rightarrow>
          (case b of
             StreamBody reads \<Rightarrow>
               (case streamLoop (newTextDecoder P) rid reads 0 (fresh (newTextDecoder P))
                       [WSStreamStartMessage rid st (responseHeaders hs)] of
                  None \<Rightarrow> None
                | Some (Some error, dec, out) \<Rightarrow> Some (out @ [errorMessage rid error])
                | Some (None, dec, out) \<Rightarrow>
                    (let finalChunk = decode_end (newTextDecoder P) dec;
                         out' = (if finalChunk \<noteq> []
                                 then out @ [WSStreamChunkMessage rid finalChunk]
                                 else out)
                     in Some (out' @ [WSStreamEndMessage rid])))
           | TextBody (Inl error) \<Rightarrow> Some [errorMessage rid error]
           | TextBody (Inr responseBodyText) \<Rightarrow>
               Some [WSHttpResponseMessage rid st (responseHeaders hs) responseBodyText]))"

section \<open>Lemmas\<close>

subsection \<open>The connection manager\<close>

lemmas consts_defs = RECONNECT_INITIAL_DELAY_MS_def RECONNECT_MAX_DELAY_MS_def

lemmas plat_defs = emit_def setTimeout_def clearTimeout_def setInterval_def clearInterval_def
  Math_random_def newWebSocket_def socket_close_def

lemma quiet_since_iff:
  "quiet_since s s' \<longleftrightarrow>
     (\<exists>es. effects s' = effects s @ es \<and> list_all (\<lambda>e. \<not> arms_reconnect e) es)"
proof
  assume q: "quiet_since s s'"
  then have "effects s' = effects s @ drop (length (effects s)) (effects s')"
    unfolding quiet_since_def by (metis append_take_drop_id)
  with q show "\<exists>es. effects s' = effects s @ es \<and> list_all (\<lambda>e. \<not> arms_reconnect e) es"
    unfolding quiet_since_def by blast
next
  assume "\<exists>es. effects s' = effects s @ es \<and> list_all (\<lambda>e. \<not> arms_reconnect e) es"
  then show "quiet_since s s'"
    by (auto simp: quiet_since_def)
qed

lemma quiet_refl [simp]: "quiet_since s s"
  by (simp add: quiet_since_def)

lemma quiet_trans: "quiet_since s s' \<Longrightarrow> quiet_since s' s'' \<Longrightarrow> quiet_since s s''"
  unfolding quiet_since_iff by fastforce

lemma quiet_same: "effects s'' = effects s' \<Longrightarrow> quiet_since s s' \<Longrightarrow> quiet_since s s''"
  by (simp add: quiet_since_def)

lemma updateStatus_frame [simp]:
  "socket (updateStatus st d s) = socket s"
  "currentStatus (updateStatus st d s) = st"
  "onStatusChangeCallback (updateStatus st d s) = onStatusChangeCallback s"
  "pingIntervalId (updateStatus st d s) = pingIntervalId s"
  "reconnectTimeoutId (updateStatus st d s) = reconnectTimeoutId s"
  "currentReconnectDelay (updateStatus st d s) = currentReconnectDelay s"
  "explicitClose (updateStatus st d s) = explicitClose s"
  "currentJwtToken (updateStatus st d s) = currentJwtToken s"
  "readyState (updateStatus st d s) = readyState s"
  "issued (updateStatus st d s) = issued s"
  "pendingTimeouts (updateStatus st d s) = pendingTimeouts s"
  "activeIntervals (updateStatus st d s) = activeIntervals s"
  "webSocketThrows (updateStatus st d s) = webSocketThrows s"
  "randomSource (updateStatus st d s) = randomSource s"
  "randomCalls (updateStatus st d s) = randomCalls s"
  by (simp_all add: updateStatus_def emit_def Let_def split: option.splits)

lemma updateStatus_quiet: "quiet_since s (updateStatus st d s)"
  by (simp add: updateStatus_def emit_def Let_def quiet_since_def split: option.splits)

lemma sendToServer_frame [simp]:
  "socket (sendToServer m s) = socket s"
  "currentStatus (sendToServer m s) = currentStatus s"
  "onStatusChangeCallback (sendToServer m s) = onStatusChangeCallback s"
  "pingIntervalId (sendToServer m s) = pingIntervalId s"
  "reconnectTimeoutId (sendToServer m s) = reconnectTimeoutId s"
  "currentReconnectDelay (sendToServer m s) = currentReconnectDelay s"
  "explicitClose (sendToServer m s) = explicitClose s"
  "currentJwtToken (sendToServer m s) = currentJwtToken s"
  "readyState (sendToServer m s) = readyState s"
  "issued (sendToServer m s) = issued s"
  "pendingTimeouts (sendToServer m s) = pendingTimeouts s"
  "activeIntervals (sendToServer m s) = activeIntervals s"
  by (simp_all add: sendToServer_def emit_def split: option.splits)

lemma sendToServer_quiet: "quiet_since s (sendToServer m s)"
  by (simp add: sendToServer_def emit_def quiet_since_def split: option.splits)

lemma stopPing_frame [simp]:
  "socket (stopPing s) = socket s"
  "currentStatus (stopPing s) = currentStatus s"
  "onStatusChangeCallback (stopPing s) = onStatusChangeCallback s"
  "reconnectTimeoutId (stopPing s) = reconnectTimeoutId s"
  "currentReconnectDelay (stopPing s) = currentReconnectDelay s"
  "explicitClose (stopPing s) = explicitClose s"
  "currentJwtToken (stopPing s) = currentJwtToken s"
  "readyState (stopPing s) = readyState s"
  "issued (stopPing s) = issued s"
  "pendingTimeouts (stopPing s) = pendingTimeouts s"
  by (simp_all add: stopPing_def plat_defs)

lemma stopPing_quiet: "quiet_since s (stopPing s)"
  by (simp add: stopPing_def plat_defs quiet_since_def)

lemma startPing_frame [simp]:
  "socket (startPing s) = socket s"
  "currentStatus (startPing s) = currentStatus s"
  "onStatusChangeCallback (startPing s) = onStatusChangeCallback s"
  "reconnectTimeoutId (startPing s) = reconnectTimeoutId s"
  "currentReconnectDelay (startPing s) = currentReconnectDelay s"
  "explicitClose (startPing s) = explicitClose s"
  "currentJwtToken (startPing s) = currentJwtToken s"
  "readyState (startPing s) = readyState s"
  "pendingTimeouts (startPing s) = pendingTimeouts s"
  by (simp_all add: startPing_def setInterval_def emit_def Let_def split: prod.splits)

lemma startPing_quiet: "quiet_since s (startPing s)"
proof -
  have "quiet_since (stopPing s) (startPing s)"
    by (simp add: startPing_def setInterval_def emit_def Let_def quiet_since_def split: prod.splits)
  with stopPing_quiet show ?thesis by (rule quiet_trans)
qed

lemma scheduleReconnect_frame [simp]:
  "socket (scheduleReconnect s) = socket s"
  "explicitClose (scheduleReconnect s) = explicitClose s"
  "currentJwtToken (scheduleReconnect s) = currentJwtToken s"
  "readyState (scheduleReconnect s) = readyState s"
  by (simp_all add: scheduleReconnect_def plat_defs Let_def split: prod.splits)

lemma scheduleReconnect_refuses:
  "explicitClose s \<or> \<not> truthy_string (currentJwtToken s) \<Longrightarrow>
   scheduleReconnect s =
     updateStatus IDLE (Some ''Reconnection not attempted (explicit close or no token).'') s"
  by (simp add: scheduleReconnect_def)

lemma scheduleReconnect_delay:
  "currentReconnectDelay (scheduleReconnect s) =
     (if explicitClose s \<or> \<not> truthy_string (currentJwtToken s) then currentReconnectDelay s
      else min (currentReconnectDelay s * 2) RECONNECT_MAX_DELAY_MS)"
  by (simp add: scheduleReconnect_def plat_defs Let_def split: prod.splits)

lemma scheduleReconnect_range: "delay_in_range s \<Longrightarrow> delay_in_range (scheduleReconnect s)"
  by (simp add: delay_in_range_def scheduleReconnect_delay consts_defs)

lemma scheduleReconnect_tracked: "timers_tracked s \<Longrightarrow> timers_tracked (scheduleReconnect s)"
  by (cases "reconnectTimeoutId s")
     (auto simp: timers_tracked_def scheduleReconnect_def plat_defs Let_def split: prod.splits)

lemma connect_delay_range: "delay_in_range s \<Longrightarrow> delay_in_range (connect t s)"
  by (auto simp: connect_def Let_def newWebSocket_def emit_def delay_in_range_def
        scheduleReconnect_delay consts_defs split: option.splits prod.splits)

lemma tracked_same:
  "reconnectTimeoutId y = reconnectTimeoutId x \<Longrightarrow> pendingTimeouts y = pendingTimeouts x \<Longrightarrow>
   timers_tracked x \<Longrightarrow> timers_tracked y"
  by (simp add: timers_tracked_def)

lemma connect_tracked:
  assumes "timers_tracked s"
  shows "timers_tracked (connect t s)"
proof (cases "t = []")
  case True
  then show ?thesis
    using assms by (simp add: connect_def tracked_same [of _ s])
next
  case False
  let ?s1 = "s\<lparr>currentJwtToken := Some t\<rparr>"
  show ?thesis
  proof (cases "case socket ?s1 of Some r \<Rightarrow> readyState ?s1 r = WS_OPEN \<or> readyState ?s1 r = WS_CONNECTING | None \<Rightarrow> False")
    case True
    with False show ?thesis
      using assms by (simp add: connect_def Let_def emit_def tracked_same [of _ s])
  next
    case busy: False
    show ?thesis
    proof (cases "webSocketThrows s (BASE_WEBSOCKET_URL @ ''?auth_token='' @ t)")
      case None
      with False busy show ?thesis
        using assms
        by (simp add: connect_def Let_def emit_def newWebSocket_def tracked_same [of _ s]
              split: prod.splits)
    next
      case (Some e)
      with False busy show ?thesis
        using assms
        by (simp add: connect_def Let_def emit_def)
           (rule scheduleReconnect_tracked, simp add: tracked_same [of _ s])
    qed
  qed
qed

lemma quiet_field_update [simp]:
  "quiet_since s (x\<lparr>socket := a1\<rparr>) = quiet_since s x"
  "quiet_since s (x\<lparr>currentStatus := a2\<rparr>) = quiet_since s x"
  "quiet_since s (x\<lparr>onStatusChangeCallback := a3\<rparr>) = quiet_since s x"
  "quiet_since s (x\<lparr>pingIntervalId := a4\<rparr>) = quiet_since s x"
  "quiet_since s (x\<lparr>reconnectTimeoutId := a5\<rparr>) = quiet_since s x"
  "quiet_since s (x\<lparr>currentReconnectDelay := a6\<rparr>) = quiet_since s x"
  "quiet_since s (x\<lparr>explicitClose := a7\<rparr>) = quiet_since s x"
  "quiet_since s (x\<lparr>currentJwtToken := a8\<rparr>) = quiet_since s x"
  "quiet_since s (x\<lparr>readyState := a9\<rparr>) = quiet_since s x"
  "quiet_since s (x\<lparr>pendingTimeouts := a10\<rparr>) = quiet_since s x"
  "quiet_since s (x\<lparr>activeIntervals := a11\<rparr>) = quiet_since s x"
  by (simp_all add: quiet_since_def)

lemma quiet_emit: "\<not> arms_reconnect e \<Longrightarrow> quiet_since s x \<Longrightarrow> quiet_since s (emit e x)"
  unfolding quiet_since_iff by (auto simp: emit_def)

lemma quiet_updateStatus: "quiet_since s x \<Longrightarrow> quiet_since s (updateStatus st d x)"
  using updateStatus_quiet quiet_trans by blast

lemma quiet_sendToServer: "quiet_since s x \<Longrightarrow> quiet_since s (sendToServer m x)"
  using sendToServer_quiet quiet_trans by blast

lemma quiet_stopPing: "quiet_since s x \<Longrightarrow> quiet_since s (stopPing x)"
  using stopPing_quiet quiet_trans by blast

lemma quiet_startPing: "quiet_since s x \<Longrightarrow> quiet_since s (startPing x)"
  using startPing_quiet quiet_trans by blast

lemma quiet_clearTimeout: "quiet_since s x \<Longrightarrow> quiet_since s (clearTimeout h x)"
  by (simp add: clearTimeout_def quiet_emit)

lemma quiet_socket_close: "quiet_since s x \<Longrightarrow> quiet_since s (socket_close r c re x)"
  by (simp add: socket_close_def quiet_emit)

lemmas quiet_intros = quiet_emit quiet_updateStatus quiet_sendToServer quiet_stopPing
  quiet_startPing quiet_clearTimeout quiet_socket_close

lemma clearTimeout_frame [simp]:
  "socket (clearTimeout h s) = socket s"
  "currentStatus (clearTimeout h s) = currentStatus s"
  "pingIntervalId (clearTimeout h s) = pingIntervalId s"
  "reconnectTimeoutId (clearTimeout h s) = reconnectTimeoutId s"
  "currentReconnectDelay (clearTimeout h s) = currentReconnectDelay s"
  "explicitClose (clearTimeout h s) = explicitClose s"
  "currentJwtToken (clearTimeout h s) = currentJwtToken s"
  "readyState (clearTimeout h s) = readyState s"
  "pendingTimeouts (clearTimeout h s) = removeAll h (pendingTimeouts s)"
  by (simp_all add: clearTimeout_def emit_def)

lemma socket_close_frame [simp]:
  "socket (socket_close r c re s) = socket s"
  "currentStatus (socket_close r c re s) = currentStatus s"
  "reconnectTimeoutId (socket_close r c re s) = reconnectTimeoutId s"
  "currentReconnectDelay (socket_close r c re s) = currentReconnectDelay s"
  "explicitClose (socket_close r c re s) = explicitClose s"
  "currentJwtToken (socket_close r c re s) = currentJwtToken s"
  "pendingTimeouts (socket_close r c re s) = pendingTimeouts s"
  by (simp_all add: socket_close_def emit_def)

lemma removeAll_only: "set xs \<subseteq> {a} \<Longrightarrow> removeAll a xs = []"
  by (induction xs) auto

lemma onSocketOpen_delay: "currentReconnectDelay (onSocketOpen s) = RECONNECT_INITIAL_DELAY_MS"
  by (simp add: onSocketOpen_def Let_def clearTimeout_def emit_def)

lemma onSocketOpen_tracked: "timers_tracked s \<Longrightarrow> timers_tracked (onSocketOpen s)"
  by (cases "reconnectTimeoutId s")
     (auto simp: timers_tracked_def onSocketOpen_def Let_def clearTimeout_def emit_def)

lemma onSocketOpen_no_credentials:
  "no_credentials s \<Longrightarrow> no_credentials (onSocketOpen s) \<and> quiet_since s (onSocketOpen s)"
  by (auto simp: no_credentials_def onSocketOpen_def Let_def intro!: quiet_intros)

lemma onSocketClose_range: "delay_in_range s \<Longrightarrow> delay_in_range (onSocketClose c r s)"
  by (simp add: onSocketClose_def Let_def delay_in_range_def scheduleReconnect_delay consts_defs)

lemma onSocketClose_tracked: "timers_tracked s \<Longrightarrow> timers_tracked (onSocketClose c r s)"
proof -
  assume t: "timers_tracked s"
  have a: "timers_tracked (stopPing s)"
    using t by (simp add: tracked_same [of _ s])
  have b: "\<And>st d. timers_tracked (scheduleReconnect (updateStatus st d (stopPing s)))"
    by (rule scheduleReconnect_tracked) (simp add: tracked_same [OF _ _ t])
  have c: "\<And>x v. timers_tracked (x\<lparr>socket := v\<rparr>) = timers_tracked x"
    "\<And>x v. timers_tracked (x\<lparr>explicitClose := v\<rparr>) = timers_tracked x"
    by (simp_all add: timers_tracked_def)
  show ?thesis
    using a b by (simp add: onSocketClose_def Let_def c tracked_same [OF _ _ t])
qed

lemma onSocketClose_no_credentials:
  "no_credentials s \<Longrightarrow>
   no_credentials (onSocketClose c r s) \<and> quiet_since s (onSocketClose c r s)"
  by (auto simp: no_credentials_def onSocketClose_def Let_def scheduleReconnect_refuses
        intro!: quiet_intros)

lemma disconnect_delay: "timers_tracked s \<Longrightarrow> currentReconnectDelay (disconnect s) = currentReconnectDelay s"
  by (cases "reconnectTimeoutId s")
     (auto simp: timers_tracked_def disconnect_def onSocketClose_def Let_def
        split: option.splits)

lemma disconnect_no_credentials:
  "timers_tracked s \<Longrightarrow> no_credentials (disconnect s)"
  by (cases "reconnectTimeoutId s")
     (auto simp: timers_tracked_def no_credentials_def disconnect_def onSocketClose_def Let_def
        removeAll_only split: option.splits)

lemma disconnect_quiet:
  "timers_tracked s \<Longrightarrow> quiet_since s (disconnect s)"
  by (cases "reconnectTimeoutId s")
     (auto simp: timers_tracked_def disconnect_def onSocketClose_def Let_def
        split: option.splits intro!: quiet_intros)

lemma tracked_of_no_credentials: "no_credentials s \<Longrightarrow> timers_tracked s"
  by (simp add: no_credentials_def timers_tracked_def)

lemma callback_range: "delay_in_range s \<Longrightarrow> delay_in_range (reconnectTimeoutCallback s)"
proof -
  assume "delay_in_range s"
  then have "delay_in_range (s\<lparr>reconnectTimeoutId := None\<rparr>)"
    by (simp add: delay_in_range_def)
  then show ?thesis
    by (auto simp: reconnectTimeoutCallback_def Let_def intro: connect_delay_range)
       (simp add: delay_in_range_def)
qed

lemma callback_tracked:
  "timers_tracked s \<Longrightarrow> h \<in> set (pendingTimeouts s) \<Longrightarrow>
   timers_tracked (reconnectTimeoutCallback (s\<lparr>pendingTimeouts := removeAll h (pendingTimeouts s)\<rparr>))"
proof -
  assume t: "timers_tracked s" and h: "h \<in> set (pendingTimeouts s)"
  let ?x = "s\<lparr>pendingTimeouts := removeAll h (pendingTimeouts s), reconnectTimeoutId := None\<rparr>"
  have "timers_tracked ?x"
    using t h by (cases "reconnectTimeoutId s") (auto simp: timers_tracked_def)
  then have "timers_tracked (connect (the (currentJwtToken ?x)) ?x)"
    and "\<And>st d. timers_tracked (updateStatus st d ?x)"
    by (simp_all add: connect_tracked tracked_same [of _ ?x])
  then show ?thesis
    by (simp add: reconnectTimeoutCallback_def Let_def)
qed

lemma misc_frame [simp]:
  "currentReconnectDelay (onSocketMessage f s) = currentReconnectDelay s"
  "reconnectTimeoutId (onSocketMessage f s) = reconnectTimeoutId s"
  "pendingTimeouts (onSocketMessage f s) = pendingTimeouts s"
  "currentJwtToken (onSocketMessage f s) = currentJwtToken s"
  "currentReconnectDelay (onSocketError s) = currentReconnectDelay s"
  "reconnectTimeoutId (onSocketError s) = reconnectTimeoutId s"
  "pendingTimeouts (onSocketError s) = pendingTimeouts s"
  "currentJwtToken (onSocketError s) = currentJwtToken s"
  "currentReconnectDelay (setOnStatusChange cb s) = currentReconnectDelay s"
  "reconnectTimeoutId (setOnStatusChange cb s) = reconnectTimeoutId s"
  "pendingTimeouts (setOnStatusChange cb s) = pendingTimeouts s"
  "currentJwtToken (setOnStatusChange cb s) = currentJwtToken s"
  by (simp_all add: onSocketMessage_def onSocketError_def setOnStatusChange_def emit_def Let_def
        split: parsed_frame.splits option.splits if_splits)

lemma misc_quiet:
  "quiet_since s (onSocketMessage f s)"
  "quiet_since s (onSocketError s)"
  "quiet_since s (setOnStatusChange cb s)"
  by (auto simp: onSocketMessage_def onSocketError_def setOnStatusChange_def Let_def
        split: parsed_frame.splits option.splits if_splits intro!: quiet_intros)

lemma step_invariants:
  assumes inv: "delay_in_range s \<and> timers_tracked s"
  shows "delay_in_range (step e s) \<and> timers_tracked (step e s)"
proof (cases e)
  case (CallConnect t)
  with inv show ?thesis by (simp add: connect_delay_range connect_tracked)
next
  case CallDisconnect
  with inv show ?thesis
    by (simp add: delay_in_range_def disconnect_delay disconnect_no_credentials
          tracked_of_no_credentials)
next
  case (CallSetOnStatusChange cb)
  with inv show ?thesis by (simp add: delay_in_range_def timers_tracked_def)
next
  case (OpenEvent r)
  from inv have "timers_tracked (s\<lparr>readyState := (readyState s)(r := WS_OPEN)\<rparr>)"
    by (simp add: timers_tracked_def)
  with OpenEvent show ?thesis
    by (simp add: delay_in_range_def onSocketOpen_delay onSocketOpen_tracked consts_defs)
next
  case (MessageEvent r f)
  with inv show ?thesis by (simp add: delay_in_range_def timers_tracked_def)
next
  case (ErrorEvent r)
  with inv show ?thesis by (simp add: delay_in_range_def timers_tracked_def)
next
  case (CloseEvent r c re)
  from inv have "timers_tracked (s\<lparr>readyState := (readyState s)(r := WS_CLOSED)\<rparr>)"
    and "delay_in_range (s\<lparr>readyState := (readyState s)(r := WS_CLOSED)\<rparr>)"
    by (simp_all add: timers_tracked_def delay_in_range_def)
  with CloseEvent show ?thesis
    by (simp add: onSocketClose_range onSocketClose_tracked)
next
  case (TimeoutFires h)
  from inv have "delay_in_range (s\<lparr>pendingTimeouts := removeAll h (pendingTimeouts s)\<rparr>)"
    by (simp add: delay_in_range_def)
  with TimeoutFires inv show ?thesis
    by (simp add: callback_range callback_tracked)
next
  case (IntervalFires h)
  with inv show ?thesis by (simp add: delay_in_range_def timers_tracked_def)
next
  case (TaskSends m)
  with inv show ?thesis by (simp add: delay_in_range_def timers_tracked_def)
qed

lemma run_invariants:
  "delay_in_range s \<and> timers_tracked s \<Longrightarrow>
   delay_in_range (run es s) \<and> timers_tracked (run es s)"
proof (induction es arbitrary: s)
  case Nil
  then show ?case by simp
next
  case (Cons e es)
  from Cons.prems have "delay_in_range (step e s) \<and> timers_tracked (step e s)"
    by (rule step_invariants)
  then show ?case using Cons.IH by simp
qed

lemma initial_invariants: "delay_in_range (initial c r) \<and> timers_tracked (initial c r)"
  by (simp add: delay_in_range_def timers_tracked_def initial_def consts_defs)

lemma step_no_credentials:
  assumes nc: "no_credentials s" and e: "\<not> is_connect_call e"
  shows "no_credentials (step e s) \<and> quiet_since s (step e s)"
proof (cases e)
  case (CallConnect t)
  with e show ?thesis by simp
next
  case CallDisconnect
  from nc have "timers_tracked s" by (rule tracked_of_no_credentials)
  with CallDisconnect show ?thesis
    by (simp add: disconnect_no_credentials disconnect_quiet)
next
  case (CallSetOnStatusChange cb)
  with nc show ?thesis by (simp add: no_credentials_def misc_quiet)
next
  case (OpenEvent r)
  from nc have "no_credentials (s\<lparr>readyState := (readyState s)(r := WS_OPEN)\<rparr>)"
    by (simp add: no_credentials_def)
  from onSocketOpen_no_credentials [OF this] OpenEvent show ?thesis
    by (simp add: quiet_since_def)
next
  case (MessageEvent r f)
  with nc show ?thesis by (simp add: no_credentials_def misc_quiet)
next
  case (ErrorEvent r)
  with nc show ?thesis by (simp add: no_credentials_def misc_quiet)
next
  case (CloseEvent r c re)
  from nc have "no_credentials (s\<lparr>readyState := (readyState s)(r := WS_CLOSED)\<rparr>)"
    by (simp add: no_credentials_def)
  from onSocketClose_no_credentials [OF this] CloseEvent show ?thesis
    by (simp add: quiet_since_def)
next
  case (TimeoutFires h)
  with nc show ?thesis by (simp add: no_credentials_def)
next
  case (IntervalFires h)
  with nc show ?thesis by (simp add: no_credentials_def sendToServer_quiet)
next
  case (TaskSends m)
  with nc show ?thesis by (simp add: no_credentials_def sendToServer_quiet)
qed

lemma run_no_credentials:
  "no_credentials s \<Longrightarrow> list_all (\<lambda>e. \<not> is_connect_call e) es \<Longrightarrow>
   no_credentials (run es s) \<and> quiet_since s (run es s)"
proof (induction es arbitrary: s)
  case Nil
  then show ?case by simp
next
  case (Cons e es)
  from Cons.prems have a: "no_credentials (step e s)" and b: "quiet_since s (step e s)"
    by (simp_all add: step_no_credentials)
  from Cons.prems have "list_all (\<lambda>e. \<not> is_connect_call e) es" by simp
  from Cons.IH [OF a this] b show ?case
    by (auto intro: quiet_trans)
qed

lemma connect_delay_mono:
  "delay_in_range s \<Longrightarrow> currentReconnectDelay s \<le> currentReconnectDelay (connect t s)"
  by (auto simp: connect_def Let_def newWebSocket_def emit_def delay_in_range_def
        scheduleReconnect_delay consts_defs split: option.splits prod.splits)

lemma onSocketClose_delay:
  "currentReconnectDelay (onSocketClose c r s) =
     (if truthy_handle (reconnectTimeoutId s) \<or> explicitClose s
         \<or> \<not> truthy_string (currentJwtToken s)
      then currentReconnectDelay s
      else min (currentReconnectDelay s * 2) RECONNECT_MAX_DELAY_MS)"
  by (simp add: onSocketClose_def Let_def scheduleReconnect_delay)

lemma onSocketClose_delay_mono:
  "delay_in_range s \<Longrightarrow> currentReconnectDelay s \<le> currentReconnectDelay (onSocketClose c r s)"
  by (simp add: onSocketClose_delay delay_in_range_def consts_defs)

lemma callback_delay_mono:
  "delay_in_range s \<Longrightarrow> currentReconnectDelay s \<le> currentReconnectDelay (reconnectTimeoutCallback s)"
proof -
  assume "delay_in_range s"
  then have "delay_in_range (s\<lparr>reconnectTimeoutId := None\<rparr>)"
    by (simp add: delay_in_range_def)
  from connect_delay_mono [OF this] show ?thesis
    by (simp add: reconnectTimeoutCallback_def Let_def)
qed

lemma step_delay_mono:
  assumes inv: "delay_in_range s \<and> timers_tracked s" and e: "\<not> is_open_event e"
  shows "currentReconnectDelay s \<le> currentReconnectDelay (step e s)"
proof (cases e)
  case (CallConnect t)
  with inv show ?thesis by (simp add: connect_delay_mono)
next
  case CallDisconnect
  with inv show ?thesis by (simp add: disconnect_delay)
next
  case (OpenEvent r)
  with e show ?thesis by simp
next
  case (CloseEvent r c re)
  from inv have "delay_in_range (s\<lparr>readyState := (readyState s)(r := WS_CLOSED)\<rparr>)"
    by (simp add: delay_in_range_def)
  from onSocketClose_delay_mono [OF this] CloseEvent show ?thesis by simp
next
  case (TimeoutFires h)
  from inv have "delay_in_range (s\<lparr>pendingTimeouts := removeAll h (pendingTimeouts s)\<rparr>)"
    by (simp add: delay_in_range_def)
  from callback_delay_mono [OF this] TimeoutFires show ?thesis by simp
qed simp_all

lemma updateStatus_effects_detail:
  "d \<noteq> [] \<Longrightarrow>
   effects (updateStatus st (Some d) x) =
     effects x @
     (case onStatusChangeCallback x of
        Some cb \<Rightarrow> [StatusCallback cb st (Some d)]
      | None \<Rightarrow> []) @
     [ConsoleLog (''WebSocket Proxy Status: '' @ status_name st @ '' - '' @ d)]"
  by (simp add: updateStatus_def emit_def Let_def split: option.splits)

lemma scheduleReconnect_effects:
  assumes "\<not> explicitClose x" and "truthy_string (currentJwtToken x)"
  shows "\<exists>C detail delay.
     effects (scheduleReconnect x) =
       effects x @ C @
       (case onStatusChangeCallback x of
          Some cb \<Rightarrow> [StatusCallback cb RECONNECTING (Some detail)]
        | None \<Rightarrow> []) @
       [ConsoleLog (''WebSocket Proxy Status: RECONNECTING - '' @ detail),
        SetTimeout (Suc (issued x)) delay]
     \<and> list_all (\<lambda>e. \<not> arms_reconnect e) C"
proof -
  let ?x1 = "if truthy_handle (reconnectTimeoutId x)
             then clearTimeout (the (reconnectTimeoutId x)) x else x"
  let ?delay = "real (currentReconnectDelay x) + randomSource x (randomCalls x) * real RECONNECT_JITTER_MS"
  let ?detail = "''Attempting to reconnect in '' @ show_int (round (?delay / 1000)) @ ''s...''"
  let ?C = "if truthy_handle (reconnectTimeoutId x)
            then [ClearTimeout (the (reconnectTimeoutId x))] else []"
  have a: "effects ?x1 = effects x @ ?C" "onStatusChangeCallback ?x1 = onStatusChangeCallback x"
    "issued ?x1 = issued x"
    by (simp_all add: clearTimeout_def emit_def)
  have "effects (scheduleReconnect x) =
       effects x @ ?C @
       (case onStatusChangeCallback x of
          Some cb \<Rightarrow> [StatusCallback cb RECONNECTING (Some ?detail)]
        | None \<Rightarrow> []) @
       [ConsoleLog (''WebSocket Proxy Status: RECONNECTING - '' @ ?detail),
        SetTimeout (Suc (issued x)) ?delay]"
    using assms
    by (simp add: scheduleReconnect_def Let_def Math_random_def setTimeout_def emit_def
          clearTimeout_def updateStatus_def split: option.splits)
  moreover have "list_all (\<lambda>e. \<not> arms_reconnect e) ?C" by simp
  ultimately show ?thesis by blast
qed

subsection \<open>The request dispatcher\<close>

lemma sent_respond:
  "sent (handleHttpRequest P request) =
     respond P (msg_id request)
       (fetch P (fetch_url (handleHttpRequest P request))
          (fetch_options (handleHttpRequest P request)))"
  by (simp add: handleHttpRequest_def respond_def Let_def)

lemma errorMessage_terminal [simp]:
  "is_terminal (errorMessage rid error)" "message_id (errorMessage rid error) = Some rid"
  "chunk_data (errorMessage rid error) = []"
  by (simp_all add: errorMessage_def split: thrown.splits)

lemma chunks_not_terminal [simp]:
  "filter is_terminal (map (WSStreamChunkMessage rid) ts) = []"
  by (induction ts) simp_all

lemma chunks_ids [simp]:
  "list_all (\<lambda>m. message_id m = Some rid) (map (WSStreamChunkMessage rid) ts)"
  by (induction ts) simp_all

lemma chunks_data [simp]:
  "concat (map chunk_data (map (WSStreamChunkMessage rid) ts)) = concat ts"
  by (induction ts) simp_all

lemma chunks_data_comp [simp]:
  "concat (map (chunk_data \<circ> WSStreamChunkMessage rid) ts) = concat ts"
  by (induction ts) simp_all

lemma streamLoop_ends:
  "\<not> is_value (reads (i + n)) \<Longrightarrow>
   \<exists>e dec' ts. streamLoop D rid reads i dec out =
                 Some (e, dec', out @ map (WSStreamChunkMessage rid) ts)"
proof (induction n arbitrary: i dec out)
  case 0
  then show ?case
    by (cases "reads i") (auto simp: streamLoop.simps [of D rid reads i])
next
  case (Suc n)
  show ?case
  proof (cases "reads i")
    case (ReadValue v)
    obtain t dec1 where d: "decode_stream D dec v = (t, dec1)"
      by (cases "decode_stream D dec v")
    from Suc.prems have "\<not> is_value (reads (Suc i + n))" by simp
    from Suc.IH [OF this, of dec1 "out @ [WSStreamChunkMessage rid t]"]
    obtain e dec' ts where
      "streamLoop D rid reads (Suc i) dec1 (out @ [WSStreamChunkMessage rid t]) =
         Some (e, dec', (out @ [WSStreamChunkMessage rid t]) @ map (WSStreamChunkMessage rid) ts)"
      by blast
    with ReadValue d have
      "streamLoop D rid reads i dec out =
         Some (e, dec', out @ map (WSStreamChunkMessage rid) (t # ts))"
      by (simp add: streamLoop.simps [of D rid reads i])
    then show ?thesis by blast
  next
    case ReadDone
    then show ?thesis by (auto simp: streamLoop.simps [of D rid reads i])
  next
    case (ReadThrows error)
    then show ?thesis by (auto simp: streamLoop.simps [of D rid reads i])
  qed
qed

lemma streamLoop_values:
  "\<forall>j<length cs. reads (i + j) = ReadValue (cs ! j) \<Longrightarrow>
   streamLoop D rid reads i dec out =
     streamLoop D rid reads (i + length cs) (snd (decode_chunks D dec cs))
       (out @ map (WSStreamChunkMessage rid) (fst (decode_chunks D dec cs)))"
proof (induction cs arbitrary: i dec out)
  case Nil
  then show ?case by simp
next
  case (Cons c cs)
  obtain t dec1 where d: "decode_stream D dec c = (t, dec1)"
    by (cases "decode_stream D dec c")
  obtain ts dec2 where e: "decode_chunks D dec1 cs = (ts, dec2)"
    by (cases "decode_chunks D dec1 cs")
  from Cons.prems have h: "reads i = ReadValue c"
    by (metis add.right_neutral length_greater_0_conv list.distinct(1) nth_Cons_0)
  from Cons.prems have "\<forall>j<length cs. reads (Suc i + j) = ReadValue (cs ! j)"
    by fastforce
  from Cons.IH [OF this, of dec1 "out @ [WSStreamChunkMessage rid t]"] h d e
  show ?case
    by (simp add: streamLoop.simps [of D rid reads i])
qed

lemma decode_chunks_concat:
  "streaming_decoder D \<Longrightarrow>
   decode_stream D dec (concat cs) =
     (concat (fst (decode_chunks D dec cs)), snd (decode_chunks D dec cs))"
proof (induction cs arbitrary: dec)
  case Nil
  then show ?case by (simp add: streaming_decoder_def)
next
  case (Cons c cs)
  from Cons.prems have
    "decode_stream D dec (c @ concat cs) =
       (case decode_stream D dec c of
          (x, dec1) \<Rightarrow> (case decode_stream D dec1 (concat cs) of (y, dec2) \<Rightarrow> (x @ y, dec2)))"
    by (simp add: streaming_decoder_def)
  with Cons.IH [OF Cons.prems] show ?case
    by (simp split: prod.splits)
qed

lemma sendAll_open:
  "socket s = Some r \<Longrightarrow> readyState s r = WS_OPEN \<Longrightarrow>
   effects (sendAll msgs s) = effects s @ map (SocketSend r) msgs"
proof (induction msgs arbitrary: s)
  case Nil
  then show ?case by simp
next
  case (Cons m msgs)
  from Cons.prems have a: "sendToServer m s = emit (SocketSend r m) s"
    by (simp add: sendToServer_def)
  from Cons.prems have "socket (emit (SocketSend r m) s) = Some r"
    and "readyState (emit (SocketSend r m) s) r = WS_OPEN"
    by (simp_all add: emit_def)
  from Cons.IH [OF this] a show ?case
    by (simp add: emit_def)
qed

lemma utf8_decode_append:
  "utf8_decode d (a @ b) =
     (case utf8_decode d a of
        (x, d1) \<Rightarrow> (case utf8_decode d1 b of (y, d2) \<Rightarrow> (x @ y, d2)))"
  by (induction a arbitrary: d) (simp_all split: prod.splits)

lemma utf8_streaming: "streaming_decoder utf8_TextDecoder"
  by (simp add: streaming_decoder_def utf8_TextDecoder_def utf8_decode_append)

lemma respond_terminal:
  assumes "body_ends r"
  shows "\<exists>msgs. respond P rid r = Some msgs
     \<and> length (filter is_terminal msgs) = 1
     \<and> msgs \<noteq> [] \<and> is_terminal (last msgs)
     \<and> list_all (\<lambda>m. message_id m = Some rid) msgs"
proof (cases r)
  case (FetchThrows error)
  then show ?thesis by (simp add: respond_def)
next
  case (FetchResponse st hs b)
  show ?thesis
  proof (cases b)
    case (TextBody t)
    with FetchResponse show ?thesis
      by (cases t) (simp_all add: respond_def)
  next
    case (StreamBody reads)
    with FetchResponse assms obtain n where "\<not> is_value (reads (0 + n))"
      by auto
    from streamLoop_ends
           [where reads = reads and i = 0 and n = n and D = "newTextDecoder P" and rid = rid
              and dec = "fresh (newTextDecoder P)"
              and out = "[WSStreamStartMessage rid st (responseHeaders hs)]", OF this]
    obtain e dec' ts where l:
      "streamLoop (newTextDecoder P) rid reads 0 (fresh (newTextDecoder P))
         [WSStreamStartMessage rid st (responseHeaders hs)] =
       Some (e, dec', [WSStreamStartMessage rid st (responseHeaders hs)] @
                      map (WSStreamChunkMessage rid) ts)"
      by blast
    show ?thesis
      using FetchResponse StreamBody l
      by (cases e) (simp_all add: respond_def Let_def)
  qed
qed

lemma streamLoop_some_ends:
  assumes "streamLoop D rid reads i dec out = Some r"
  shows "\<exists>n. \<not> is_value (reads n)"
proof (rule streamLoop.raw_induct
         [where P = "\<lambda>D rid reads i dec out y. \<exists>n. \<not> is_value (reads n)", OF _ assms])
  fix loop :: "'a TextDecoder \<Rightarrow> string \<Rightarrow> (nat \<Rightarrow> read_result) \<Rightarrow> nat \<Rightarrow> 'a
      \<Rightarrow> WSClientSentMessage list \<Rightarrow> (thrown option \<times> 'a \<times> WSClientSentMessage list) option"
    and D rid reads i dec out y
  assume ih: "\<And>D rid reads i dec out y. loop D rid reads i dec out = Some y \<Longrightarrow>
                \<exists>n. \<not> is_value (reads n)"
    and b: "(case reads i of
               ReadValue v \<Rightarrow>
                 (case decode_stream D dec v of
                    (chunkData, dec') \<Rightarrow>
                      loop D rid reads (Suc i) dec' (out @ [WSStreamChunkMessage rid chunkData]))
             | ReadDone \<Rightarrow> Some (None, dec, out)
             | ReadThrows error \<Rightarrow> Some (Some error, dec, out)) = Some y"
  show "\<exists>n. \<not> is_value (reads n)"
  proof (cases "reads i")
    case (ReadValue v)
    with b ih show ?thesis
      by (auto split: prod.splits)
  next
    case ReadDone
    then have "\<not> is_value (reads i)" by simp
    then show ?thesis ..
  next
    case (ReadThrows error)
    then have "\<not> is_value (reads i)" by simp
    then show ?thesis ..
  qed
qed

lemma endless_stream_never_answers:
  assumes "fetch P (fetch_url (handleHttpRequest P request))
             (fetch_options (handleHttpRequest P request)) = FetchResponse st hs (StreamBody reads)"
    and "\<forall>n. is_value (reads n)"
  shows "sent (handleHttpRequest P request) = None"
proof -
  have "streamLoop (newTextDecoder P) (msg_id request) reads 0 (fresh (newTextDecoder P))
          [WSStreamStartMessage (msg_id request) st (responseHeaders hs)] = None"
  proof (rule ccontr)
    assume "streamLoop (newTextDecoder P) (msg_id request) reads 0 (fresh (newTextDecoder P))
          [WSStreamStartMessage (msg_id request) st (responseHeaders hs)] \<noteq> None"
    then obtain r where
      "streamLoop (newTextDecoder P) (msg_id request) reads 0 (fresh (newTextDecoder P))
          [WSStreamStartMessage (msg_id request) st (responseHeaders hs)] = Some r"
      by blast
    from streamLoop_some_ends [OF this] assms(2) show False by blast
  qed
  with assms(1) show ?thesis
    by (simp add: sent_respond respond_def)
qed

section \<open>The claims\<close>

lemmas eval_defs = initial_def updateStatus_def sendToServer_def stopPing_def startPing_def
  scheduleReconnect_def connect_def reconnectTimeoutCallback_def onSocketOpen_def
  onSocketMessage_def onSocketError_def onSocketClose_def disconnect_def setOnStatusChange_def
  emit_def setTimeout_def clearTimeout_def setInterval_def clearInterval_def
  Math_random_def newWebSocket_def socket_close_def Let_def
  RECONNECT_INITIAL_DELAY_MS_def RECONNECT_MAX_DELAY_MS_def RECONNECT_JITTER_MS_def
  PING_INTERVAL_MS_def WS_CONNECTING_def WS_OPEN_def WS_CLOSING_def WS_CLOSED_def
  BASE_WEBSOCKET_URL_def show_int_def show_nat.simps digit_char_def

lemmas dispatch_eval = handleHttpRequest_def example_platform_def example_request_def
  example_stream_def simple_newURL_def simple_toString_def Let_def endsWith_def
  searchParams_has_def searchParams_delete_def parse_pair_def reads_of_def streamLoop.simps
  utf8_TextDecoder_def utf8_end_def responseHeaders_def utf8_fresh_def utf8_byte_def
  utf8_lead_def utf8_reset_def errorMessage_def

subsection \<open>C1: one terminal message per request\<close>

text \<open>
  C1. Whenever the run of \<open>handleHttpRequest\<close> for a request with id X comes to an end,
  that is, unless the response is a stream whose reads never finish, it hands to
  \<open>sendToServer\<close> a list of messages that all carry X, of which exactly one is terminal
  (\<open>http_response\<close>, \<open>stream_end\<close> or \<open>error\<close>), and that one is the last. This covers
  the buffered response, the streamed response, a \<open>fetch\<close> that throws, and a read or
  \<open>text()\<close> that throws. While the socket is open, \<open>sendToServer\<close> puts exactly these
  messages on the socket.
\<close>

theorem exactly_one_terminal_message:
  assumes "body_ends (fetch P (fetch_url (handleHttpRequest P request))
                        (fetch_options (handleHttpRequest P request)))"
  shows "\<exists>msgs. sent (handleHttpRequest P request) = Some msgs
     \<and> length (filter is_terminal msgs) = 1
     \<and> is_terminal (last msgs)
     \<and> list_all (\<lambda>m. message_id m = Some (msg_id request)) msgs
     \<and> (\<forall>s r. socket s = Some r \<and> readyState s r = WS_OPEN \<longrightarrow>
            effects (sendAll msgs s) = effects s @ map (SocketSend r) msgs)"
  using respond_terminal [OF assms, of P "msg_id request"]
  by (auto simp: sent_respond sendAll_open)

theorem exactly_one_terminal_message_witness:
  "body_ends (fetch (example_platform (example_stream [[0x68], [0x69]]))
                (fetch_url (handleHttpRequest (example_platform (example_stream [[0x68], [0x69]]))
                              (example_request ''GET'' ''https://h/x'')))
                (fetch_options (handleHttpRequest (example_platform (example_stream [[0x68], [0x69]]))
                              (example_request ''GET'' ''https://h/x''))))
   \<and> sent (handleHttpRequest (example_platform (example_stream [[0x68], [0x69]]))
             (example_request ''GET'' ''https://h/x'')) =
       Some [WSStreamStartMessage ''X'' 200 [], WSStreamChunkMessage ''X'' [0x68],
             WSStreamChunkMessage ''X'' [0x69], WSStreamEndMessage ''X'']
   \<and> length (filter is_terminal
        [WSStreamStartMessage ''X'' 200 [], WSStreamChunkMessage ''X'' [0x68],
         WSStreamChunkMessage ''X'' [0x69], WSStreamEndMessage ''X'']) = 1
   \<and> socket example_connected = Some 1
   \<and> readyState example_connected 1 = WS_OPEN
   \<and> effects (sendAll [WSStreamStartMessage ''X'' 200 [], WSStreamChunkMessage ''X'' [0x68],
                        WSStreamChunkMessage ''X'' [0x69], WSStreamEndMessage ''X'']
                example_connected) =
       effects example_connected @
       [SocketSend 1 (WSStreamStartMessage ''X'' 200 []),
        SocketSend 1 (WSStreamChunkMessage ''X'' [0x68]),
        SocketSend 1 (WSStreamChunkMessage ''X'' [0x69]),
        SocketSend 1 (WSStreamEndMessage ''X'')]"
proof -
  let ?P = "example_platform (example_stream [[0x68], [0x69]])"
  let ?q = "example_request ''GET'' ''https://h/x''"
  let ?msgs = "[WSStreamStartMessage ''X'' 200 [], WSStreamChunkMessage ''X'' [0x68],
                WSStreamChunkMessage ''X'' [0x69], WSStreamEndMessage ''X'']"
  have "\<not> is_value (reads_of [[0x68], [0x69]] 2)"
    by (simp add: reads_of_def)
  then have "\<exists>n. \<not> is_value (reads_of [[0x68], [0x69]] n)" ..
  then have h: "body_ends (fetch ?P (fetch_url (handleHttpRequest ?P ?q))
                             (fetch_options (handleHttpRequest ?P ?q)))"
    by (simp add: example_platform_def example_stream_def)
  have s: "sent (handleHttpRequest ?P ?q) = Some ?msgs"
    by (simp add: dispatch_eval)
  have c: "socket example_connected = Some 1" "readyState example_connected 1 = WS_OPEN"
    by (simp_all add: example_connected_def example_initial_def eval_defs)
  from exactly_one_terminal_message [OF h] obtain msgs where
    m: "sent (handleHttpRequest ?P ?q) = Some msgs"
    and n: "length (filter is_terminal msgs) = 1"
    and w: "\<forall>s r. socket s = Some r \<and> readyState s r = WS_OPEN \<longrightarrow>
              effects (sendAll msgs s) = effects s @ map (SocketSend r) msgs"
    by blast
  from m s have e: "msgs = ?msgs" by simp
  from w c have "effects (sendAll msgs example_connected) =
                 effects example_connected @ map (SocketSend 1) msgs"
    by blast
  with e n h s c show ?thesis by simp
qed

subsection \<open>C2: the reconnect delay\<close>

text \<open>
  C2. In every state that the loaded module can reach, whatever the calls, socket events
  and timers were: the delay lies between the initial and the maximum value; a
  \<open>scheduleReconnect\<close> call does not decrease it and does not exceed the maximum, and when
  it schedules (the close was not explicit and a token is stored) the new delay is the old
  one doubled, capped at the maximum; so does a close event that finds no reconnect timer
  armed; no event other than the opening of a socket decreases the delay; and
  \<open>onSocketOpen\<close> resets it to the initial value.
\<close>

theorem reconnect_delay_backoff:
  assumes "s = run evs (initial ctor rnd)"
  shows "RECONNECT_INITIAL_DELAY_MS \<le> currentReconnectDelay s
    \<and> currentReconnectDelay s \<le> RECONNECT_MAX_DELAY_MS
    \<and> currentReconnectDelay s \<le> currentReconnectDelay (scheduleReconnect s)
    \<and> currentReconnectDelay (scheduleReconnect s) \<le> RECONNECT_MAX_DELAY_MS
    \<and> (\<not> explicitClose s \<and> truthy_string (currentJwtToken s) \<longrightarrow>
         currentReconnectDelay (scheduleReconnect s) =
           min (currentReconnectDelay s * 2) RECONNECT_MAX_DELAY_MS)
    \<and> (\<not> explicitClose s \<and> truthy_string (currentJwtToken s)
           \<and> \<not> truthy_handle (reconnectTimeoutId s) \<longrightarrow>
         currentReconnectDelay (step (CloseEvent r code reason) s) =
           min (currentReconnectDelay s * 2) RECONNECT_MAX_DELAY_MS)
    \<and> (\<not> is_open_event e \<longrightarrow>
         currentReconnectDelay s \<le> currentReconnectDelay (step e s))
    \<and> currentReconnectDelay (onSocketOpen s) = RECONNECT_INITIAL_DELAY_MS
    \<and> currentReconnectDelay (step (OpenEvent r) s) = RECONNECT_INITIAL_DELAY_MS"
proof -
  have inv: "delay_in_range s \<and> timers_tracked s"
    unfolding assms by (rule run_invariants [OF initial_invariants])
  then have "delay_in_range s" ..
  then have a: "RECONNECT_INITIAL_DELAY_MS \<le> currentReconnectDelay s
    \<and> currentReconnectDelay s \<le> RECONNECT_MAX_DELAY_MS
    \<and> currentReconnectDelay s \<le> currentReconnectDelay (scheduleReconnect s)
    \<and> currentReconnectDelay (scheduleReconnect s) \<le> RECONNECT_MAX_DELAY_MS
    \<and> (\<not> explicitClose s \<and> truthy_string (currentJwtToken s) \<longrightarrow>
         currentReconnectDelay (scheduleReconnect s) =
           min (currentReconnectDelay s * 2) RECONNECT_MAX_DELAY_MS)"
    by (simp add: delay_in_range_def scheduleReconnect_delay)
  have b: "\<not> explicitClose s \<and> truthy_string (currentJwtToken s)
           \<and> \<not> truthy_handle (reconnectTimeoutId s) \<longrightarrow>
         currentReconnectDelay (step (CloseEvent r code reason) s) =
           min (currentReconnectDelay s * 2) RECONNECT_MAX_DELAY_MS"
    by (simp add: onSocketClose_delay)
  have c: "\<not> is_open_event e \<longrightarrow> currentReconnectDelay s \<le> currentReconnectDelay (step e s)"
    using step_delay_mono [OF inv] by blast
  have d: "currentReconnectDelay (onSocketOpen s) = RECONNECT_INITIAL_DELAY_MS"
    "currentReconnectDelay (step (OpenEvent r) s) = RECONNECT_INITIAL_DELAY_MS"
    by (simp_all add: onSocketOpen_delay)
  from a b c d show ?thesis by blast
qed

theorem reconnect_delay_backoff_witness:
  "currentReconnectDelay example_dropped = 2000
   \<and> \<not> explicitClose example_dropped
   \<and> truthy_string (currentJwtToken example_dropped)
   \<and> currentReconnectDelay (scheduleReconnect example_dropped) = 4000
   \<and> \<not> is_open_event (TimeoutFires 2)
   \<and> 2000 \<le> currentReconnectDelay (step (TimeoutFires 2) example_dropped)
   \<and> currentReconnectDelay (onSocketOpen example_dropped) = 1000
   \<and> currentReconnectDelay example_connected = 1000
   \<and> \<not> explicitClose example_connected
   \<and> truthy_string (currentJwtToken example_connected)
   \<and> \<not> truthy_handle (reconnectTimeoutId example_connected)
   \<and> currentReconnectDelay (step (CloseEvent 1 1006 []) example_connected) = 2000"
proof -
  have f: "currentReconnectDelay example_dropped = 2000"
    "\<not> explicitClose example_dropped"
    "truthy_string (currentJwtToken example_dropped)"
    by (simp_all add: example_dropped_def eval_defs)
  have g: "currentReconnectDelay example_connected = 1000"
    "\<not> explicitClose example_connected"
    "truthy_string (currentJwtToken example_connected)"
    "\<not> truthy_handle (reconnectTimeoutId example_connected)"
    by (simp_all add: example_connected_def example_initial_def eval_defs)
  have h: "example_connected = run [CallConnect ''a'', OpenEvent 1] (initial (\<lambda>_. None) (\<lambda>_. 0))"
    by (simp add: example_connected_def example_initial_def)
  have i: "\<not> is_open_event (TimeoutFires 2)" by simp
  show ?thesis
    using f g i
      reconnect_delay_backoff
        [OF example_dropped_def, where r = 1 and code = 1006 and reason = "[]"
           and e = "TimeoutFires 2"]
      reconnect_delay_backoff
        [OF h, where r = 1 and code = 1006 and reason = "[]" and e = "TimeoutFires 2"]
    by (simp add: consts_defs)
qed

subsection \<open>C3: no reconnect after disconnect\<close>

text \<open>
  C3. Take any state the module can reach and call \<open>disconnect\<close>: the stored token is
  null and no reconnect timer is armed. Whatever happens next, as long as it is not a
  \<open>connect\<close> call (close, error, open and message events of any socket, timers, sends of
  pending tasks, further \<open>disconnect\<close> calls), this stays so, and no one-shot timer is
  armed and no WebSocket is created. Also, \<open>scheduleReconnect\<close> called when the close was
  explicit or no token is held sets the status IDLE, arms no timer and leaves the pending
  one, if any, alone.
\<close>

theorem no_reconnect_after_disconnect:
  assumes "list_all (\<lambda>e. \<not> is_connect_call e) later"
  shows "currentJwtToken (disconnect (run earlier (initial ctor rnd))) = None
    \<and> reconnectTimeoutId (disconnect (run earlier (initial ctor rnd))) = None
    \<and> pendingTimeouts (disconnect (run earlier (initial ctor rnd))) = []
    \<and> currentJwtToken (run later (disconnect (run earlier (initial ctor rnd)))) = None
    \<and> reconnectTimeoutId (run later (disconnect (run earlier (initial ctor rnd)))) = None
    \<and> pendingTimeouts (run later (disconnect (run earlier (initial ctor rnd)))) = []
    \<and> quiet_since (disconnect (run earlier (initial ctor rnd)))
         (run later (disconnect (run earlier (initial ctor rnd))))
    \<and> (explicitClose x \<or> \<not> truthy_string (currentJwtToken x) \<longrightarrow>
         currentStatus (scheduleReconnect x) = IDLE
         \<and> reconnectTimeoutId (scheduleReconnect x) = reconnectTimeoutId x
         \<and> pendingTimeouts (scheduleReconnect x) = pendingTimeouts x
         \<and> quiet_since x (scheduleReconnect x))"
proof -
  let ?d = "disconnect (run earlier (initial ctor rnd))"
  have "timers_tracked (run earlier (initial ctor rnd))"
    using run_invariants [OF initial_invariants] by blast
  then have d: "no_credentials ?d"
    by (rule disconnect_no_credentials)
  from run_no_credentials [OF d assms]
  have "no_credentials (run later ?d)" and "quiet_since ?d (run later ?d)"
    by simp_all
  with d show ?thesis
    by (auto simp: no_credentials_def scheduleReconnect_refuses updateStatus_quiet)
qed

theorem no_reconnect_after_disconnect_witness:
  "list_all (\<lambda>e. \<not> is_connect_call e)
     [CloseEvent 1 1000 ''Client initiated disconnect'', CloseEvent 1 1006 [], ErrorEvent 1,
      TimeoutFires 2, OpenEvent 1]
   \<and> reconnectTimeoutId
        (run [CloseEvent 1 1000 ''Client initiated disconnect'', CloseEvent 1 1006 [],
              ErrorEvent 1, TimeoutFires 2, OpenEvent 1]
           (disconnect (run [CallConnect ''a'', OpenEvent 1] (initial (\<lambda>_. None) (\<lambda>_. 0))))) = None
   \<and> quiet_since (disconnect (run [CallConnect ''a'', OpenEvent 1] (initial (\<lambda>_. None) (\<lambda>_. 0))))
        (run [CloseEvent 1 1000 ''Client initiated disconnect'', CloseEvent 1 1006 [],
              ErrorEvent 1, TimeoutFires 2, OpenEvent 1]
           (disconnect (run [CallConnect ''a'', OpenEvent 1] (initial (\<lambda>_. None) (\<lambda>_. 0)))))
   \<and> \<not> truthy_string (currentJwtToken example_initial)
   \<and> currentStatus (scheduleReconnect example_initial) = IDLE"
  using no_reconnect_after_disconnect
          [of "[CloseEvent 1 1000 ''Client initiated disconnect'', CloseEvent 1 1006 [],
                ErrorEvent 1, TimeoutFires 2, OpenEvent 1]"
              "[CallConnect ''a'', OpenEvent 1]" "\<lambda>_. None" "\<lambda>_. 0" example_initial]
  by (simp add: example_initial_def initial_def)

subsection \<open>C4: the key parameter of the model-listing endpoint\<close>

text \<open>
  C4. For a GET request whose URL parses and whose path ends in \<open>/v1beta/models\<close> or
  \<open>/v1beta/models/\<close>, the URL handed to \<open>fetch\<close> is the serialization of the parsed URL
  with every \<open>key\<close> parameter removed and the other parameters, the path and the rest
  kept (when there is no \<open>key\<close> parameter, it is the URL as received). For any other
  method, for a URL that does not parse and for any other path, it is the URL as received.
\<close>

theorem models_listing_url_loses_key:
  "(httpMethod (payload request) = ''GET''
      \<and> newURL P (url (payload request)) = Some parsedUrl
      \<and> (endsWith (pathname parsedUrl) ''/v1beta/models'' \<or>
         endsWith (pathname parsedUrl) ''/v1beta/models/'')
    \<longrightarrow> fetch_url (handleHttpRequest P request) =
          (if searchParams_has parsedUrl ''key''
           then URL_toString P (searchParams_delete parsedUrl ''key'')
           else url (payload request))
        \<and> \<not> searchParams_has (searchParams_delete parsedUrl ''key'') ''key''
        \<and> searchParams (searchParams_delete parsedUrl ''key'') =
            filter (\<lambda>p. fst p \<noteq> ''key'') (searchParams parsedUrl)
        \<and> pathname (searchParams_delete parsedUrl ''key'') = pathname parsedUrl
        \<and> origin (searchParams_delete parsedUrl ''key'') = origin parsedUrl
        \<and> hash (searchParams_delete parsedUrl ''key'') = hash parsedUrl)
   \<and> (httpMethod (payload request) \<noteq> ''GET''
       \<or> newURL P (url (payload request)) = None
       \<or> (newURL P (url (payload request)) = Some parsedUrl
           \<and> \<not> endsWith (pathname parsedUrl) ''/v1beta/models''
           \<and> \<not> endsWith (pathname parsedUrl) ''/v1beta/models/'')
    \<longrightarrow> fetch_url (handleHttpRequest P request) = url (payload request))"
  by (auto simp: handleHttpRequest_def Let_def searchParams_has_def searchParams_delete_def)

theorem models_listing_url_loses_key_witness:
  "simple_newURL ''https://h/v1beta/models?key=SECRET&x=1'' =
     Some \<lparr> origin = ''https://h'', pathname = ''/v1beta/models'',
            searchParams = [(''key'', ''SECRET''), (''x'', ''1'')], hash = [] \<rparr>
   \<and> endsWith ''/v1beta/models'' ''/v1beta/models''
   \<and> fetch_url (handleHttpRequest (example_platform (example_stream []))
                  (example_request ''GET'' ''https://h/v1beta/models?key=SECRET&x=1'')) =
       ''https://h/v1beta/models?x=1''
   \<and> fetch_url (handleHttpRequest (example_platform (example_stream []))
                  (example_request ''GET'' ''https://h/v1beta/other?key=SECRET&x=1'')) =
       ''https://h/v1beta/other?key=SECRET&x=1''
   \<and> fetch_url (handleHttpRequest (example_platform (example_stream []))
                  (example_request ''POST'' ''https://h/v1beta/models?key=SECRET&x=1'')) =
       ''https://h/v1beta/models?key=SECRET&x=1''
   \<and> simple_newURL ''/v1beta/models?key=SECRET'' = None
   \<and> fetch_url (handleHttpRequest (example_platform (example_stream []))
                  (example_request ''GET'' ''/v1beta/models?key=SECRET'')) =
       ''/v1beta/models?key=SECRET''"
  using models_listing_url_loses_key
          [of "example_request ''GET'' ''https://h/v1beta/models?key=SECRET&x=1''"
              "example_platform (example_stream [])"
              "\<lparr> origin = ''https://h'', pathname = ''/v1beta/models'',
                 searchParams = [(''key'', ''SECRET''), (''x'', ''1'')], hash = [] \<rparr>"]
  by (simp add: dispatch_eval)

subsection \<open>C5: streamed chunks decode to the whole text\<close>

text \<open>
  C5. For a streamed response whose reads deliver the byte chunks \<open>chunks\<close> and then are
  done, and a decoder that decodes piecewise (as \<open>TextDecoder\<close> with \<open>stream: true\<close>
  does), the data of the \<open>stream_chunk\<close> messages, joined, is the decoding of the whole
  byte sequence in one call. The messages are \<open>stream_start\<close>, one \<open>stream_chunk\<close> per
  read with the state of the decoder carried from chunk to chunk, the flushed rest as one
  more chunk when it is not empty, and \<open>stream_end\<close> last.
\<close>

theorem streamed_chunks_join_to_whole_decoding:
  assumes "streaming_decoder (newTextDecoder P)"
    and "fetch P (fetch_url (handleHttpRequest P request))
           (fetch_options (handleHttpRequest P request)) = FetchResponse st hs (StreamBody reads)"
    and "\<forall>i<length chunks. reads i = ReadValue (chunks ! i)"
    and "reads (length chunks) = ReadDone"
  shows "\<exists>msgs. sent (handleHttpRequest P request) = Some msgs
     \<and> concat (map chunk_data msgs) = decode_whole (newTextDecoder P) (concat chunks)
     \<and> msgs =
         WSStreamStartMessage (msg_id request) st (responseHeaders hs) #
         map (WSStreamChunkMessage (msg_id request))
           (fst (decode_chunks (newTextDecoder P) (fresh (newTextDecoder P)) chunks)) @
         (if decode_end (newTextDecoder P)
               (snd (decode_chunks (newTextDecoder P) (fresh (newTextDecoder P)) chunks)) \<noteq> []
          then [WSStreamChunkMessage (msg_id request)
                  (decode_end (newTextDecoder P)
                     (snd (decode_chunks (newTextDecoder P) (fresh (newTextDecoder P)) chunks)))]
          else []) @
         [WSStreamEndMessage (msg_id request)]"
proof -
  let ?D = "newTextDecoder P"
  let ?rid = "msg_id request"
  let ?start = "[WSStreamStartMessage ?rid st (responseHeaders hs)]"
  let ?ts = "fst (decode_chunks ?D (fresh ?D) chunks)"
  let ?dec = "snd (decode_chunks ?D (fresh ?D) chunks)"
  from assms(3) have "\<forall>j<length chunks. reads (0 + j) = ReadValue (chunks ! j)"
    by simp
  from streamLoop_values
         [where reads = reads and i = 0 and cs = chunks and D = ?D and rid = ?rid
            and dec = "fresh ?D" and out = ?start, OF this]
  have "streamLoop ?D ?rid reads 0 (fresh ?D) ?start =
          streamLoop ?D ?rid reads (length chunks) ?dec
            (?start @ map (WSStreamChunkMessage ?rid) ?ts)"
    by simp
  with assms(4) have l: "streamLoop ?D ?rid reads 0 (fresh ?D) ?start =
          Some (None, ?dec, ?start @ map (WSStreamChunkMessage ?rid) ?ts)"
    by (simp add: streamLoop.simps [of ?D ?rid reads "length chunks"])
  have w: "decode_whole ?D (concat chunks) = concat ?ts @ decode_end ?D ?dec"
    using decode_chunks_concat [OF assms(1), of "fresh ?D" chunks]
    by (simp add: decode_whole_def)
  show ?thesis
    using l w assms(2)
    by (simp add: sent_respond respond_def Let_def)
qed

theorem streamed_chunks_join_to_whole_decoding_witness:
  "streaming_decoder (newTextDecoder (example_platform (example_stream [[0xC3], [0xA9]])))
   \<and> reads_of [[0xC3], [0xA9]] 0 = ReadValue [0xC3]
   \<and> reads_of [[0xC3], [0xA9]] 1 = ReadValue [0xA9]
   \<and> reads_of [[0xC3], [0xA9]] 2 = ReadDone
   \<and> decode_whole utf8_TextDecoder [0xC3, 0xA9] = [0xE9]
   \<and> (\<exists>msgs. sent (handleHttpRequest (example_platform (example_stream [[0xC3], [0xA9]]))
                    (example_request ''GET'' ''https://h/x'')) = Some msgs
         \<and> concat (map chunk_data msgs) = [0xE9])"
proof -
  let ?P = "example_platform (example_stream [[0xC3], [0xA9]])"
  let ?q = "example_request ''GET'' ''https://h/x''"
  have a: "streaming_decoder (newTextDecoder ?P)"
    by (simp add: example_platform_def utf8_streaming)
  have b: "fetch ?P (fetch_url (handleHttpRequest ?P ?q)) (fetch_options (handleHttpRequest ?P ?q)) =
           FetchResponse 200 [] (StreamBody (reads_of [[0xC3], [0xA9]]))"
    by (simp add: example_platform_def example_stream_def)
  have c: "\<forall>i<length [[0xC3], [0xA9 :: byte]]. reads_of [[0xC3], [0xA9]] i = ReadValue ([[0xC3], [0xA9]] ! i)"
    by (simp add: reads_of_def)
  have d: "reads_of [[0xC3], [0xA9 :: byte]] (length [[0xC3], [0xA9 :: byte]]) = ReadDone"
    by (simp add: reads_of_def)
  have e: "decode_whole utf8_TextDecoder [0xC3, 0xA9] = [0xE9]"
    by (simp add: decode_whole_def dispatch_eval)
  have f: "newTextDecoder ?P = utf8_TextDecoder"
    by (simp add: example_platform_def)
  have g: "reads_of [[0xC3], [0xA9 :: byte]] 0 = ReadValue [0xC3]"
    "reads_of [[0xC3], [0xA9 :: byte]] 1 = ReadValue [0xA9]"
    "reads_of [[0xC3], [0xA9 :: byte]] 2 = ReadDone"
    by (simp_all add: reads_of_def)
  from streamed_chunks_join_to_whole_decoding [OF a b c d]
  have "\<exists>msgs. sent (handleHttpRequest ?P ?q) = Some msgs
         \<and> concat (map chunk_data msgs) = [0xE9]"
    using e f by auto
  with a g e show ?thesis by simp
qed

subsection \<open>C6: empty decoded chunks\<close>

text \<open>
  C6 does not hold of the code: inside the loop the decoded chunk is sent whether or not it
  is empty; only the flushed rest after the loop is tested. Here the body arrives as the
  two bytes of U+00E9 in two reads, and the first read yields a \<open>stream_chunk\<close> with empty
  data.
\<close>

theorem empty_decoded_chunk_is_sent:
  "fst (utf8_decode utf8_fresh [0xC3]) = []
   \<and> sent (handleHttpRequest (example_platform (example_stream [[0xC3], [0xA9]]))
            (example_request ''GET'' ''https://h/x'')) =
       Some [WSStreamStartMessage ''X'' 200 [], WSStreamChunkMessage ''X'' [],
             WSStreamChunkMessage ''X'' [0xE9], WSStreamEndMessage ''X'']"
  by (simp add: dispatch_eval)

subsection \<open>C7: connect while a socket is open or connecting\<close>

text \<open>
  C7, as stated, fails: \<open>connect\<close> stores the token before it looks at the socket, so a
  call with another token while the socket is open replaces the stored token, which later
  reconnects use. Here the manager is Connected with the token \<open>a\<close>, and \<open>connect("b")\<close>
  changes the stored token.
\<close>

theorem connect_while_connected_counterexample:
  "currentStatus example_connected = CONNECTED
   \<and> socket example_connected = Some 1
   \<and> readyState example_connected 1 = WS_OPEN
   \<and> currentJwtToken example_connected = Some ''a''
   \<and> currentJwtToken (connect ''b'' example_connected) = Some ''b''
   \<and> connect ''b'' example_connected \<noteq> example_connected"
proof -
  have a: "currentJwtToken example_connected = Some ''a''"
    by (simp add: example_connected_def example_initial_def eval_defs)
  have b: "currentJwtToken (connect ''b'' example_connected) = Some ''b''"
    by (simp add: example_connected_def example_initial_def eval_defs)
  have c: "connect ''b'' example_connected \<noteq> example_connected"
  proof
    assume "connect ''b'' example_connected = example_connected"
    then have "currentJwtToken (connect ''b'' example_connected) = currentJwtToken example_connected"
      by simp
    with a b show False by simp
  qed
  have d: "currentStatus example_connected = CONNECTED"
    "socket example_connected = Some 1" "readyState example_connected 1 = WS_OPEN"
    by (simp_all add: example_connected_def example_initial_def eval_defs)
  from a b c d show ?thesis by simp
qed

text \<open>
  C7, amended. A \<open>connect\<close> call with a non-empty token, made while the variable \<open>socket\<close>
  holds a WebSocket whose \<open>readyState\<close> is OPEN or CONNECTING, makes no connection attempt
  and no status transition: it changes nothing but the stored token, which becomes the
  token passed, and logs one line.
\<close>

theorem connect_while_open_or_connecting:
  assumes "jwtToken \<noteq> []"
    and "socket s = Some r"
    and "readyState s r = WS_OPEN \<or> readyState s r = WS_CONNECTING"
  shows "connect jwtToken s =
           s\<lparr>currentJwtToken := Some jwtToken,
             effects := effects s @ [ConsoleLog ''WebSocket Proxy: Already connected or connecting.'']\<rparr>"
  using assms by (auto simp: connect_def Let_def emit_def)

theorem connect_while_open_or_connecting_witness:
  "''b'' \<noteq> []
   \<and> socket example_connected = Some 1
   \<and> readyState example_connected 1 = WS_OPEN
   \<and> currentStatus (connect ''b'' example_connected) = currentStatus example_connected
   \<and> socket (connect ''b'' example_connected) = socket example_connected
   \<and> issued (connect ''b'' example_connected) = issued example_connected"
proof -
  have a: "socket example_connected = Some 1" "readyState example_connected 1 = WS_OPEN"
    by (simp_all add: example_connected_def example_initial_def eval_defs)
  have b: "''b'' \<noteq> []" by simp
  from a have c: "readyState example_connected 1 = WS_OPEN \<or> readyState example_connected 1 = WS_CONNECTING"
    by simp
  show ?thesis
    using a b connect_while_open_or_connecting [OF b a(1) c] by simp
qed

text \<open>
  The guard of \<open>connect\<close> reads the socket, not the status, and the two can disagree: after
  \<open>connect("a")\<close>, the opening of the socket and \<open>disconnect()\<close>, the status is still
  CONNECTED (the close event has not come yet) while the variable \<open>socket\<close> is null, and
  \<open>connect("b")\<close> creates a new WebSocket. This is why the amended statement is about the
  socket.
\<close>

lemma connect_with_status_connected_and_no_socket:
  "currentStatus example_disconnecting = CONNECTED
   \<and> socket example_disconnecting = None
   \<and> socket (connect ''b'' example_disconnecting) = Some 3
   \<and> currentStatus (connect ''b'' example_disconnecting) = CONNECTING
   \<and> NewWebSocket ''ws://127.0.0.1:5345/v1/ws?auth_token=b'' 3
       \<in> set (effects (connect ''b'' example_disconnecting))"
  by (simp add: example_disconnecting_def example_initial_def eval_defs)

subsection \<open>C8: fail-fast on an empty token\<close>

text \<open>
  C8. \<open>connect\<close> with an empty token does nothing but report the status ERROR: the status
  becomes ERROR, and the socket, the stored token, every timer, the platform's WebSocket
  objects and the handles issued are what they were; the only effects are the status
  notification and its log line.
\<close>

theorem connect_empty_token_fails_fast:
  "connect '''' s = updateStatus ERROR (Some ''JWT Token is required to connect.'') s
   \<and> currentStatus (connect '''' s) = ERROR
   \<and> socket (connect '''' s) = socket s
   \<and> currentJwtToken (connect '''' s) = currentJwtToken s
   \<and> reconnectTimeoutId (connect '''' s) = reconnectTimeoutId s
   \<and> pingIntervalId (connect '''' s) = pingIntervalId s
   \<and> pendingTimeouts (connect '''' s) = pendingTimeouts s
   \<and> activeIntervals (connect '''' s) = activeIntervals s
   \<and> issued (connect '''' s) = issued s
   \<and> readyState (connect '''' s) = readyState s
   \<and> effects (connect '''' s) =
       effects s @
       (case onStatusChangeCallback s of
          Some cb \<Rightarrow> [StatusCallback cb ERROR (Some ''JWT Token is required to connect.'')]
        | None \<Rightarrow> []) @
       [ConsoleLog ''WebSocket Proxy Status: ERROR - JWT Token is required to connect.'']"
  by (simp add: connect_def updateStatus_def emit_def split: option.splits)

subsection \<open>C9: frames that are dropped\<close>

text \<open>
  C9. A frame that does not parse, that parses to a value whose \<open>type\<close> cannot be read,
  or whose \<open>type\<close> is neither \<open>http_request\<close> nor \<open>pong\<close>, is logged and dropped: the
  handler adds one console line to the trace (an error for the first two, a warning for an
  unknown type) and changes nothing else, so nothing is sent, no socket is closed and the
  status stays what it was.
\<close>

theorem unusable_frame_is_logged_and_dropped:
  assumes "frame = ParseFailure \<or> frame = NullValue \<or>
           (frame = Parsed t request \<and> t \<noteq> Some ''http_request'' \<and> t \<noteq> Some ''pong'')"
  shows "onSocketMessage frame s =
           s\<lparr>effects := effects s @
               [if frame = ParseFailure \<or> frame = NullValue
                then ConsoleError ''WebSocket Proxy: Error parsing message from server or handling it:''
                else ConsoleWarn ''WebSocket Proxy: Received unknown message type'']\<rparr>
    \<and> currentStatus (onSocketMessage frame s) = currentStatus s
    \<and> socket (onSocketMessage frame s) = socket s
    \<and> readyState (onSocketMessage frame s) = readyState s
    \<and> explicitClose (onSocketMessage frame s) = explicitClose s"
  using assms by (auto simp: onSocketMessage_def emit_def)

theorem unusable_frame_is_logged_and_dropped_witness:
  "effects (onSocketMessage ParseFailure example_connected) =
     effects example_connected @
       [ConsoleError ''WebSocket Proxy: Error parsing message from server or handling it:'']
   \<and> effects (onSocketMessage (Parsed (Some ''hello'') None) example_connected) =
     effects example_connected @ [ConsoleWarn ''WebSocket Proxy: Received unknown message type'']
   \<and> currentStatus (onSocketMessage (Parsed None None) example_connected) =
     currentStatus example_connected"
  using unusable_frame_is_logged_and_dropped [of ParseFailure None None example_connected]
    unusable_frame_is_logged_and_dropped
      [of "Parsed (Some ''hello'') None" "Some ''hello''" None example_connected]
    unusable_frame_is_logged_and_dropped [of "Parsed None None" None None example_connected]
  by simp

subsection \<open>C10: a constructor that throws\<close>

text \<open>
  C10. When \<open>connect\<close> is called with a non-empty token, no socket is open or connecting,
  and \<open>new WebSocket\<close> throws, then within this call the manager first reports the status
  ERROR (to the observer, when one is registered, and on the console, with the message of
  the thrown value), then reports RECONNECTING and arms the reconnect timer, and it creates
  no WebSocket and arms no other timer. It ends in RECONNECTING with that timer armed and
  the token stored; when the timer fires, \<open>connect\<close> runs again with the stored token,
  without a call from outside.
\<close>

theorem connect_instantiation_error_schedules_reconnect:
  assumes "jwtToken \<noteq> []"
    and "\<not> (case socket s of
               Some r \<Rightarrow> readyState s r = WS_OPEN \<or> readyState s r = WS_CONNECTING
             | None \<Rightarrow> False)"
    and "webSocketThrows s (BASE_WEBSOCKET_URL @ ''?auth_token='' @ jwtToken) = Some err"
  shows "(\<exists>before between detail delay.
            effects (connect jwtToken s) =
              effects s @ before @
              (case onStatusChangeCallback s of
                 Some cb \<Rightarrow>
                   [StatusCallback cb ERROR
                      (Some (''Failed to instantiate WebSocket: '' @ thrown_message err))]
               | None \<Rightarrow> []) @
              [ConsoleLog (''WebSocket Proxy Status: ERROR - Failed to instantiate WebSocket: '' @
                           thrown_message err)] @
              between @
              (case onStatusChangeCallback s of
                 Some cb \<Rightarrow> [StatusCallback cb RECONNECTING (Some detail)]
               | None \<Rightarrow> []) @
              [ConsoleLog (''WebSocket Proxy Status: RECONNECTING - '' @ detail),
               SetTimeout (Suc (issued s)) delay]
            \<and> list_all (\<lambda>e. \<not> arms_reconnect e) before
            \<and> list_all (\<lambda>e. \<not> arms_reconnect e) between)
    \<and> currentStatus (connect jwtToken s) = RECONNECTING
    \<and> reconnectTimeoutId (connect jwtToken s) = Some (Suc (issued s))
    \<and> Suc (issued s) \<in> set (pendingTimeouts (connect jwtToken s))
    \<and> currentJwtToken (connect jwtToken s) = Some jwtToken
    \<and> \<not> explicitClose (connect jwtToken s)
    \<and> socket (connect jwtToken s) = socket s
    \<and> step (TimeoutFires (Suc (issued s))) (connect jwtToken s) =
        connect jwtToken
          ((connect jwtToken s)
             \<lparr>pendingTimeouts := removeAll (Suc (issued s)) (pendingTimeouts (connect jwtToken s)),
              reconnectTimeoutId := None\<rparr>)"
proof -
  let ?d = "''Failed to instantiate WebSocket: '' @ thrown_message err"
  let ?x = "updateStatus CONNECTING None
              (s\<lparr>currentJwtToken := Some jwtToken, explicitClose := False\<rparr>)"
  let ?y = "emit (ConsoleError ''WebSocket Proxy: Instantiation error:'')
              (emit (ConsoleLog (''WebSocket Proxy: Attempting to connect to '' @
                       BASE_WEBSOCKET_URL @ ''?auth_token='' @ jwtToken)) ?x)"
  let ?e = "updateStatus ERROR (Some ?d) ?y"
  have c: "connect jwtToken s = scheduleReconnect ?e"
    using assms by (cases "socket s") (simp_all add: connect_def Let_def emit_def)
  have e: "currentStatus ?e = ERROR" "\<not> explicitClose ?e" "currentJwtToken ?e = Some jwtToken"
    "issued ?e = issued s" "socket ?e = socket s"
    "onStatusChangeCallback ?e = onStatusChangeCallback s"
    by (simp_all add: emit_def)
  have r: "currentStatus (scheduleReconnect ?e) = RECONNECTING"
    "reconnectTimeoutId (scheduleReconnect ?e) = Some (Suc (issued s))"
    "Suc (issued s) \<in> set (pendingTimeouts (scheduleReconnect ?e))"
    using e assms(1)
    by (simp_all add: scheduleReconnect_def Let_def setTimeout_def Math_random_def
          clearTimeout_def emit_def split: prod.splits)
  have t: "currentJwtToken (scheduleReconnect ?e) = Some jwtToken"
    "\<not> explicitClose (scheduleReconnect ?e)" "socket (scheduleReconnect ?e) = socket s"
    using e by simp_all
  have f: "step (TimeoutFires (Suc (issued s))) (scheduleReconnect ?e) =
        connect jwtToken
          ((scheduleReconnect ?e)
             \<lparr>pendingTimeouts := removeAll (Suc (issued s)) (pendingTimeouts (scheduleReconnect ?e)),
              reconnectTimeoutId := None\<rparr>)"
    using r(3) t(1) assms(1) by (simp add: reconnectTimeoutCallback_def Let_def)
  have "quiet_since (s\<lparr>currentJwtToken := Some jwtToken, explicitClose := False\<rparr>) ?x"
    by (rule updateStatus_quiet)
  then obtain A where A: "effects ?x = effects s @ A" "list_all (\<lambda>e. \<not> arms_reconnect e) A"
    unfolding quiet_since_iff by auto
  let ?before = "A @ [ConsoleLog (''WebSocket Proxy: Attempting to connect to '' @
                        BASE_WEBSOCKET_URL @ ''?auth_token='' @ jwtToken),
                      ConsoleError ''WebSocket Proxy: Instantiation error:'']"
  have y: "effects ?y = effects s @ ?before"
    "onStatusChangeCallback ?y = onStatusChangeCallback s"
    using A(1) by (simp_all add: emit_def)
  have b: "list_all (\<lambda>e. \<not> arms_reconnect e) ?before"
    using A(2) by simp
  have ee: "effects ?e =
              effects s @ ?before @
              (case onStatusChangeCallback s of
                 Some cb \<Rightarrow> [StatusCallback cb ERROR (Some ?d)]
               | None \<Rightarrow> []) @
              [ConsoleLog (''WebSocket Proxy Status: ERROR - '' @ ?d)]"
    using updateStatus_effects_detail [of ?d ERROR ?y] y by simp
  have tt: "truthy_string (currentJwtToken ?e)"
    using e(3) assms(1) by simp
  from scheduleReconnect_effects [OF e(2) tt]
  obtain C detail delay where s:
    "effects (scheduleReconnect ?e) =
       effects ?e @ C @
       (case onStatusChangeCallback ?e of
          Some cb \<Rightarrow> [StatusCallback cb RECONNECTING (Some detail)]
        | None \<Rightarrow> []) @
       [ConsoleLog (''WebSocket Proxy Status: RECONNECTING - '' @ detail),
        SetTimeout (Suc (issued ?e)) delay]"
    "list_all (\<lambda>e. \<not> arms_reconnect e) C"
    by auto
  have tr: "effects (scheduleReconnect ?e) =
              effects s @ ?before @
              (case onStatusChangeCallback s of
                 Some cb \<Rightarrow> [StatusCallback cb ERROR (Some ?d)]
               | None \<Rightarrow> []) @
              [ConsoleLog (''WebSocket Proxy Status: ERROR - Failed to instantiate WebSocket: '' @
                           thrown_message err)] @
              C @
              (case onStatusChangeCallback s of
                 Some cb \<Rightarrow> [StatusCallback cb RECONNECTING (Some detail)]
               | None \<Rightarrow> []) @
              [ConsoleLog (''WebSocket Proxy Status: RECONNECTING - '' @ detail),
               SetTimeout (Suc (issued s)) delay]"
    using s(1) ee e(4) e(6) by simp
  from tr b s(2) have first:
    "\<exists>before between detail delay.
            effects (scheduleReconnect ?e) =
              effects s @ before @
              (case onStatusChangeCallback s of
                 Some cb \<Rightarrow>
                   [StatusCallback cb ERROR
                      (Some (''Failed to instantiate WebSocket: '' @ thrown_message err))]
               | None \<Rightarrow> []) @
              [ConsoleLog (''WebSocket Proxy Status: ERROR - Failed to instantiate WebSocket: '' @
                           thrown_message err)] @
              between @
              (case onStatusChangeCallback s of
                 Some cb \<Rightarrow> [StatusCallback cb RECONNECTING (Some detail)]
               | None \<Rightarrow> []) @
              [ConsoleLog (''WebSocket Proxy Status: RECONNECTING - '' @ detail),
               SetTimeout (Suc (issued s)) delay]
            \<and> list_all (\<lambda>e. \<not> arms_reconnect e) before
            \<and> list_all (\<lambda>e. \<not> arms_reconnect e) between"
    by blast
  show ?thesis
    unfolding c using first r t f by blast
qed

theorem connect_instantiation_error_schedules_reconnect_witness:
  "''a'' \<noteq> []
   \<and> socket example_throwing = None
   \<and> webSocketThrows example_throwing (BASE_WEBSOCKET_URL @ ''?auth_token='' @ ''a'') =
       Some (ErrorObject ''bad url'')
   \<and> currentStatus (connect ''a'' example_throwing) = RECONNECTING
   \<and> reconnectTimeoutId (connect ''a'' example_throwing) = Some 1
   \<and> pendingTimeouts (connect ''a'' example_throwing) = [1]
   \<and> effects (connect ''a'' example_throwing) =
       [ConsoleLog ''WebSocket Proxy Status: CONNECTING'',
        ConsoleLog ''WebSocket Proxy: Attempting to connect to ws://127.0.0.1:5345/v1/ws?auth_token=a'',
        ConsoleError ''WebSocket Proxy: Instantiation error:'',
        ConsoleLog ''WebSocket Proxy Status: ERROR - Failed to instantiate WebSocket: bad url'',
        ConsoleLog ''WebSocket Proxy Status: RECONNECTING - Attempting to reconnect in 1s...'',
        SetTimeout 1 1000]"
proof -
  have a: "''a'' \<noteq> []" by simp
  have b: "socket example_throwing = None"
    "webSocketThrows example_throwing (BASE_WEBSOCKET_URL @ ''?auth_token='' @ ''a'') =
       Some (ErrorObject ''bad url'')"
    "issued example_throwing = 0"
    by (simp_all add: example_throwing_def initial_def)
  from b(1) have c: "\<not> (case socket example_throwing of
               Some r \<Rightarrow> readyState example_throwing r = WS_OPEN \<or>
                         readyState example_throwing r = WS_CONNECTING
             | None \<Rightarrow> False)"
    by simp
  have d: "pendingTimeouts (connect ''a'' example_throwing) = [1]"
    "effects (connect ''a'' example_throwing) =
       [ConsoleLog ''WebSocket Proxy Status: CONNECTING'',
        ConsoleLog ''WebSocket Proxy: Attempting to connect to ws://127.0.0.1:5345/v1/ws?auth_token=a'',
        ConsoleError ''WebSocket Proxy: Instantiation error:'',
        ConsoleLog ''WebSocket Proxy Status: ERROR - Failed to instantiate WebSocket: bad url'',
        ConsoleLog ''WebSocket Proxy Status: RECONNECTING - Attempting to reconnect in 1s...'',
        SetTimeout 1 1000]"
    by (simp_all add: example_throwing_def eval_defs)
  show ?thesis
    using a b d connect_instantiation_error_schedules_reconnect [OF a c b(2)] by simp
qed

end
